theory Spec2Isabelle
  imports Main "HOL-Library.Sublist"
begin

section \<open>Python string and list primitives used by nmap\_builder.py\<close>

text \<open>
  Strings are lists of characters; a character stands for a code point below 256.
  The functions below follow the Python built-ins the program calls:
  \<^verbatim>\<open>str.strip()\<close>, \<^verbatim>\<open>str.split()\<close>, \<^verbatim>\<open>str.split(',')\<close>, \<^verbatim>\<open>' '.join\<close>,
  \<^verbatim>\<open>str.isdigit()\<close>, \<^verbatim>\<open>int(s)\<close>, \<^verbatim>\<open>str(n)\<close>, negative indexing and the slices
  \<^verbatim>\<open>xs[-n:]\<close>.
\<close>

datatype error = EOFError | ValueError | IndexError | SystemExit nat

definition py_isspace :: "char \<Rightarrow> bool" where
  "py_isspace c = (c \<in> set [CHR 0x09, CHR 0x0A, CHR 0x0B, CHR 0x0C, CHR 0x0D,
                             CHR 0x1C, CHR 0x1D, CHR 0x1E, CHR 0x1F, CHR 0x20,
                             CHR 0x85, CHR 0xA0])"

definition py_strip :: "string \<Rightarrow> string" where
  "py_strip s = rev (dropWhile py_isspace (rev (dropWhile py_isspace s)))"

fun split_ws :: "string \<Rightarrow> string \<Rightarrow> string list" where
  "split_ws w [] = (if w = [] then [] else [w])"
| "split_ws w (c # cs) =
     (if py_isspace c then (if w = [] then split_ws [] cs else w # split_ws [] cs)
      else split_ws (w @ [c]) cs)"

definition py_split :: "string \<Rightarrow> string list" where
  "py_split s = split_ws [] s"

fun split_on :: "char \<Rightarrow> string \<Rightarrow> string \<Rightarrow> string list" where
  "split_on d w [] = [w]"
| "split_on d w (c # cs) =
     (if c = d then w # split_on d [] cs else split_on d (w @ [c]) cs)"

definition py_split_on :: "char \<Rightarrow> string \<Rightarrow> string list" where
  "py_split_on d s = split_on d [] s"

fun py_join :: "string \<Rightarrow> string list \<Rightarrow> string" where
  "py_join sep [] = []"
| "py_join sep [x] = x"
| "py_join sep (x # y # ys) = x @ sep @ py_join sep (y # ys)"

definition is_ascii_digit :: "char \<Rightarrow> bool" where
  "is_ascii_digit c = (c \<in> set ''0123456789'')"

definition py_isdigit :: "string \<Rightarrow> bool" where
  \<comment> \<open>below 256 the superscripts one, two and three are digits as well\<close>
  "py_isdigit s = (s \<noteq> [] \<and>
     list_all (\<lambda>c. is_ascii_digit c \<or> c \<in> set [CHR 0xB2, CHR 0xB3, CHR 0xB9]) s)"

definition digit_val :: "char \<Rightarrow> nat" where
  "digit_val c = length (takeWhile (\<lambda>d. d \<noteq> c) ''0123456789'')"

definition parse_digits :: "string \<Rightarrow> nat" where
  "parse_digits ds = foldl (\<lambda>acc c. 10 * acc + digit_val c) 0 ds"

definition max_str_digits :: nat where
  \<comment> \<open>CPython's default limit on the digits of a decimal literal given to \<^verbatim>\<open>int\<close>\<close>
  "max_str_digits = 4300"

definition parse_unsigned :: "string \<Rightarrow> nat option" where
  \<comment> \<open>digits, with single underscores allowed between digits\<close>
  "parse_unsigned u =
     (let groups = py_split_on (CHR ''_'') u in
      if list_all (\<lambda>g. g \<noteq> [] \<and> list_all is_ascii_digit g) groups
         \<and> length (concat groups) \<le> max_str_digits
      then Some (parse_digits (concat groups)) else None)"

definition py_int :: "string \<Rightarrow> int option" where
  \<comment> \<open>\<^verbatim>\<open>int(s)\<close>; \<open>None\<close> stands for ValueError\<close>
  "py_int s =
     (case py_strip s of
        [] \<Rightarrow> None
      | c # r \<Rightarrow>
          if c = CHR ''-'' then map_option (\<lambda>n. - int n) (parse_unsigned r)
          else if c = CHR ''+'' then map_option int (parse_unsigned r)
          else map_option int (parse_unsigned (c # r)))"

fun digits_of :: "nat \<Rightarrow> string" where
  "digits_of n =
     (if n < 10 then [''0123456789'' ! n]
      else digits_of (n div 10) @ [''0123456789'' ! (n mod 10)])"

declare digits_of.simps [simp del]

definition py_str :: "int \<Rightarrow> string" where
  "py_str i = (if i < 0 then CHR ''-'' # digits_of (nat (- i)) else digits_of (nat i))"

definition py_last_n :: "nat \<Rightarrow> 'a list \<Rightarrow> 'a list" where
  \<comment> \<open>the slice \<^verbatim>\<open>xs[-n:]\<close> for \<open>n > 0\<close>\<close>
  "py_last_n n xs = drop (length xs - n) xs"

definition py_index :: "'a list \<Rightarrow> int \<Rightarrow> error + 'a" where
  \<comment> \<open>\<^verbatim>\<open>xs[i]\<close>: \<open>-1\<close> is the last element, \<open>-len(xs)\<close> the first; beyond that it raises\<close>
  "py_index xs i =
     (if 0 \<le> i \<and> i < int (length xs) then Inr (xs ! nat i)
      else if i < 0 \<and> - int (length xs) \<le> i then Inr (xs ! nat (int (length xs) + i))
      else Inl IndexError)"

section \<open>Option catalogs\<close>

text \<open>
  Each catalog of \<^verbatim>\<open>NmapBuilder.__init__\<close> is a dictionary from a selection key to a
  descriptor. The descriptors keep the display name and the flag; the help texts are only
  printed and are left out. The output formats carry a file extension too.
\<close>

record option_entry =
  opt_name :: string
  opt_flag :: string

record output_entry =
  out_name :: string
  out_flag :: string
  out_ext :: string

definition scan_types :: "string \<rightharpoonup> option_entry" where
  "scan_types = map_of
    [(''1'', \<lparr>opt_name = ''TCP SYN Scan'', opt_flag = ''-sS''\<rparr>),
     (''2'', \<lparr>opt_name = ''TCP Connect Scan'', opt_flag = ''-sT''\<rparr>),
     (''3'', \<lparr>opt_name = ''UDP Scan'', opt_flag = ''-sU''\<rparr>),
     (''4'', \<lparr>opt_name = ''TCP ACK Scan'', opt_flag = ''-sA''\<rparr>),
     (''5'', \<lparr>opt_name = ''TCP Window Scan'', opt_flag = ''-sW''\<rparr>),
     (''6'', \<lparr>opt_name = ''TCP Maimon Scan'', opt_flag = ''-sM''\<rparr>),
     (''7'', \<lparr>opt_name = ''TCP Null Scan'', opt_flag = ''-sN''\<rparr>),
     (''8'', \<lparr>opt_name = ''TCP FIN Scan'', opt_flag = ''-sF''\<rparr>),
     (''9'', \<lparr>opt_name = ''TCP Xmas Scan'', opt_flag = ''-sX''\<rparr>),
     (''10'', \<lparr>opt_name = ''Ping Scan'', opt_flag = ''-sn''\<rparr>),
     (''11'', \<lparr>opt_name = ''List Scan'', opt_flag = ''-sL''\<rparr>),
     (''12'', \<lparr>opt_name = ''Version Detection'', opt_flag = ''-sV''\<rparr>)]"

definition timing_templates :: "string \<rightharpoonup> option_entry" where
  "timing_templates = map_of
    [(''0'', \<lparr>opt_name = ''Paranoid'', opt_flag = ''-T0''\<rparr>),
     (''1'', \<lparr>opt_name = ''Sneaky'', opt_flag = ''-T1''\<rparr>),
     (''2'', \<lparr>opt_name = ''Polite'', opt_flag = ''-T2''\<rparr>),
     (''3'', \<lparr>opt_name = ''Normal'', opt_flag = ''-T3''\<rparr>),
     (''4'', \<lparr>opt_name = ''Aggressive'', opt_flag = ''-T4''\<rparr>),
     (''5'', \<lparr>opt_name = ''Insane'', opt_flag = ''-T5''\<rparr>)]"

definition output_formats :: "string \<rightharpoonup> output_entry" where
  "output_formats = map_of
    [(''1'', \<lparr>out_name = ''Normal Output'', out_flag = ''-oN'', out_ext = ''.nmap''\<rparr>),
     (''2'', \<lparr>out_name = ''XML Output'', out_flag = ''-oX'', out_ext = ''.xml''\<rparr>),
     (''3'', \<lparr>out_name = ''Greppable Output'', out_flag = ''-oG'', out_ext = ''.gnmap''\<rparr>),
     (''4'', \<lparr>out_name = ''All Formats'', out_flag = ''-oA'', out_ext = []\<rparr>),
     (''5'', \<lparr>out_name = ''Script Kiddie'', out_flag = ''-oS'', out_ext = ''.skid''\<rparr>)]"

definition detection_options :: "string \<rightharpoonup> option_entry" where
  "detection_options = map_of
    [(''1'', \<lparr>opt_name = ''Service Version Detection'', opt_flag = ''-sV''\<rparr>),
     (''2'', \<lparr>opt_name = ''OS Detection'', opt_flag = ''-O''\<rparr>),
     (''3'', \<lparr>opt_name = ''Script Scan (Default)'', opt_flag = ''-sC''\<rparr>),
     (''4'', \<lparr>opt_name = ''Script Scan (All)'', opt_flag = ''--script=all''\<rparr>),
     (''5'', \<lparr>opt_name = ''Script Scan (Vuln)'', opt_flag = ''--script=vuln''\<rparr>),
     (''6'', \<lparr>opt_name = ''Script Scan (Auth)'', opt_flag = ''--script=auth''\<rparr>),
     (''7'', \<lparr>opt_name = ''Script Scan (Discovery)'', opt_flag = ''--script=discovery''\<rparr>),
     (''8'', \<lparr>opt_name = ''Aggressive Scan'', opt_flag = ''-A''\<rparr>),
     (''9'', \<lparr>opt_name = ''Custom Script'', opt_flag = ''--script=''\<rparr>)]"

definition port_options :: "string \<rightharpoonup> option_entry" where
  \<comment> \<open>the local dictionary of \<^verbatim>\<open>get_port_specification\<close>\<close>
  "port_options = map_of
    [(''1'', \<lparr>opt_name = ''Default NMAP ports'', opt_flag = []\<rparr>),
     (''2'', \<lparr>opt_name = ''Fast scan'', opt_flag = ''-F''\<rparr>),
     (''3'', \<lparr>opt_name = ''All ports'', opt_flag = ''-p-''\<rparr>),
     (''4'', \<lparr>opt_name = ''Top 100 ports'', opt_flag = ''--top-ports 100''\<rparr>),
     (''5'', \<lparr>opt_name = ''Top 1000 ports'', opt_flag = ''--top-ports 1000''\<rparr>),
     (''6'', \<lparr>opt_name = ''Well-known ports'', opt_flag = ''-p 1-1023''\<rparr>),
     (''7'', \<lparr>opt_name = ''Common web ports'', opt_flag = ''-p 80,443,8080,8443,8000,8888''\<rparr>),
     (''8'', \<lparr>opt_name = ''Common service ports'',
             opt_flag = ''-p 21,22,23,25,53,80,110,143,443,993,995''\<rparr>),
     (''9'', \<lparr>opt_name = ''Database ports'', opt_flag = ''-p 1433,1521,3306,5432,27017''\<rparr>),
     (''10'', \<lparr>opt_name = ''Remote access ports'', opt_flag = ''-p 22,23,3389,5900,5901,5902''\<rparr>),
     (''11'', \<lparr>opt_name = ''Custom port range'', opt_flag = ''custom_range''\<rparr>),
     (''12'', \<lparr>opt_name = ''Custom port list'', opt_flag = ''custom_list''\<rparr>),
     (''13'', \<lparr>opt_name = ''Single port'', opt_flag = ''custom_single''\<rparr>)]"

section \<open>The builder state and the interactive steps\<close>

text \<open>
  \<^verbatim>\<open>self.command_parts\<close> is a record of strings (the empty string means "absent") and the
  list of extra options. Every step reads lines from the operator: the input is the list of
  lines still to come, \<^verbatim>\<open>input()\<close> takes its head, and reading past the end raises
  \<open>EOFError\<close>. A step returns the updated state and the unread lines. What the steps print
  is not modelled.
\<close>

record command_parts =
  scan_type :: string
  target :: string
  ports :: string
  timing :: string
  detection :: string
  "output" :: string
  misc_options :: "string list"

definition init_parts :: command_parts where
  "init_parts = \<lparr>scan_type = [], target = [], ports = [], timing = [],
                  detection = [], output = [], misc_options = []\<rparr>"

type_synonym step_result = "error + (command_parts \<times> string list)"

fun get_scan_type :: "command_parts \<Rightarrow> string list \<Rightarrow> step_result" where
  "get_scan_type cp [] = Inl EOFError"
| "get_scan_type cp (l # ls) =
     (case scan_types (py_strip l) of
        Some selected \<Rightarrow> Inr (cp\<lparr>scan_type := opt_flag selected\<rparr>, ls)
      | None \<Rightarrow> get_scan_type cp ls)"

fun get_target :: "command_parts \<Rightarrow> string list \<Rightarrow> step_result" where
  "get_target cp [] = Inl EOFError"
| "get_target cp (l # ls) =
     (if py_strip l \<noteq> [] then Inr (cp\<lparr>target := py_strip l\<rparr>, ls)
      else get_target cp ls)"

fun custom_range :: "command_parts \<Rightarrow> string list \<Rightarrow> step_result" where
  "custom_range cp (start_port # end_port # rest) =
     (case py_int (py_strip start_port) of
        None \<Rightarrow> custom_range cp rest
      | Some start_n \<Rightarrow>
          (case py_int (py_strip end_port) of
             None \<Rightarrow> custom_range cp rest
           | Some end_n \<Rightarrow>
               if 1 \<le> start_n \<and> start_n \<le> 65535 \<and> 1 \<le> end_n \<and> end_n \<le> 65535
                  \<and> start_n \<le> end_n
               then Inr (cp\<lparr>ports := ''-p '' @ py_str start_n @ ''-'' @ py_str end_n\<rparr>, rest)
               else custom_range cp rest))"
| "custom_range cp _ = Inl EOFError"

fun custom_list :: "command_parts \<Rightarrow> string list \<Rightarrow> step_result" where
  "custom_list cp [] = Inl EOFError"
| "custom_list cp (l # rest) =
     (let port_list = py_strip l in
      if port_list \<noteq> [] then
        (case those (map (\<lambda>p. py_int (py_strip p)) (py_split_on (CHR '','') port_list)) of
           None \<Rightarrow> custom_list cp rest
         | Some ps \<Rightarrow>
             if list_all (\<lambda>p. 1 \<le> p \<and> p \<le> 65535) ps
             then Inr (cp\<lparr>ports := ''-p '' @ port_list\<rparr>, rest)
             else custom_list cp rest)
      else custom_list cp rest)"

fun custom_single :: "command_parts \<Rightarrow> string list \<Rightarrow> step_result" where
  "custom_single cp [] = Inl EOFError"
| "custom_single cp (l # rest) =
     (case py_int (py_strip l) of
        None \<Rightarrow> custom_single cp rest
      | Some port \<Rightarrow>
          if 1 \<le> port \<and> port \<le> 65535
          then Inr (cp\<lparr>ports := ''-p '' @ py_str port\<rparr>, rest)
          else custom_single cp rest)"

fun get_port_specification :: "command_parts \<Rightarrow> string list \<Rightarrow> step_result" where
  "get_port_specification cp [] = Inl EOFError"
| "get_port_specification cp (l # ls) =
     (case port_options (py_strip l) of
        None \<Rightarrow> get_port_specification cp ls
      | Some selected \<Rightarrow>
          if opt_flag selected = ''custom_range'' then custom_range cp ls
          else if opt_flag selected = ''custom_list'' then custom_list cp ls
          else if opt_flag selected = ''custom_single'' then custom_single cp ls
          else if opt_flag selected \<noteq> [] then Inr (cp\<lparr>ports := opt_flag selected\<rparr>, ls)
          else Inr (cp, ls))"

fun get_timing_template :: "command_parts \<Rightarrow> string list \<Rightarrow> step_result" where
  "get_timing_template cp [] = Inl EOFError"
| "get_timing_template cp (l # ls) =
     (case timing_templates (py_strip l) of
        Some selected \<Rightarrow> Inr (cp\<lparr>timing := opt_flag selected\<rparr>, ls)
      | None \<Rightarrow> Inr (cp, ls))"

fun detection_loop ::
  "string list \<Rightarrow> string list \<Rightarrow> string list \<Rightarrow> error + (string list \<times> string list)" where
  "detection_loop [] inp detection_flags = Inr (detection_flags, inp)"
| "detection_loop (c # cs) inp detection_flags =
     (let choice = py_strip c in
      case detection_options choice of
        None \<Rightarrow> detection_loop cs inp detection_flags
      | Some d \<Rightarrow>
          if choice = ''9'' then
            (case inp of
               [] \<Rightarrow> Inl EOFError
             | script_name # rest \<Rightarrow>
                 detection_loop cs rest
                   (detection_flags @ [''--script='' @ py_strip script_name]))
          else detection_loop cs inp (detection_flags @ [opt_flag d]))"

fun get_detection_options :: "command_parts \<Rightarrow> string list \<Rightarrow> step_result" where
  "get_detection_options cp [] = Inl EOFError"
| "get_detection_options cp (l # ls) =
     (let choices = py_strip l in
      if choices \<noteq> [] then
        (case detection_loop (py_split_on (CHR '','') choices) ls [] of
           Inl e \<Rightarrow> Inl e
         | Inr (detection_flags, rest) \<Rightarrow>
             Inr (cp\<lparr>detection := py_join '' '' detection_flags\<rparr>, rest))
      else Inr (cp, ls))"

text \<open>
  What the program takes from \<^verbatim>\<open>datetime\<close> is a parameter. The clock is read through
  \<^verbatim>\<open>datetime.now()\<close>: \<open>stamp\<close> is its \<^verbatim>\<open>strftime("%Y%m%d_%H%M%S")\<close>, \<open>pretty\<close> its
  \<^verbatim>\<open>strftime('%Y-%m-%d %H:%M:%S')\<close> and \<open>iso\<close> its \<^verbatim>\<open>isoformat()\<close>. The history view
  parses stored timestamps with \<^verbatim>\<open>datetime.fromisoformat\<close>, which raises \<open>ValueError\<close> on
  a string it does not accept: \<open>fromisoformat_ok\<close> tells which strings it accepts.
\<close>

record clock =
  stamp :: string
  pretty :: string
  iso :: string
  fromisoformat_ok :: "string \<Rightarrow> bool"

fun get_output_options :: "clock \<Rightarrow> command_parts \<Rightarrow> string list \<Rightarrow> step_result" where
  "get_output_options now cp [] = Inl EOFError"
| "get_output_options now cp (l # ls) =
     (case output_formats (py_strip l) of
        None \<Rightarrow> Inr (cp, ls)
      | Some selected \<Rightarrow>
          (case ls of
             [] \<Rightarrow> Inl EOFError
           | f # rest \<Rightarrow>
               let default_name = ''nmap_scan_'' @ stamp now;
                   filename = (if py_strip f = [] then default_name else py_strip f);
                   output_flag =
                     (if out_ext selected \<noteq> []
                      then out_flag selected @ '' '' @ filename @ out_ext selected
                      else out_flag selected @ '' '' @ filename)
               in Inr (cp\<lparr>output := output_flag\<rparr>, rest)))"

fun get_misc_options :: "command_parts \<Rightarrow> string list \<Rightarrow> step_result" where
  "get_misc_options cp [] = Inl EOFError"
| "get_misc_options cp (l # ls) =
     (let misc = py_strip l in
      if misc \<noteq> [] then Inr (cp\<lparr>misc_options := py_split misc\<rparr>, ls)
      else Inr (cp, ls))"

section \<open>The command assembler\<close>

definition cmd_parts :: "command_parts \<Rightarrow> string list" where
  \<comment> \<open>the list \<^verbatim>\<open>cmd_parts\<close> of \<^verbatim>\<open>build_command\<close> just before the join\<close>
  "cmd_parts cp =
     [''nmap'']
     @ (if scan_type cp \<noteq> [] then [scan_type cp] else [])
     @ (if ports cp \<noteq> [] then [ports cp] else [])
     @ (if timing cp \<noteq> [] then [timing cp] else [])
     @ (if detection cp \<noteq> [] then py_split (detection cp) else [])
     @ (if output cp \<noteq> [] then py_split (output cp) else [])
     @ (if misc_options cp \<noteq> [] then misc_options cp else [])
     @ [target cp]"

definition build_command :: "command_parts \<Rightarrow> string" where
  "build_command cp = py_join '' '' (cmd_parts cp)"

text \<open>
  The seven steps of \<^verbatim>\<open>build_new_command\<close>, from the reset state to the state that is
  rendered. An exception of a step ends the sequence.
\<close>

definition then_step ::
  "step_result \<Rightarrow> (command_parts \<Rightarrow> string list \<Rightarrow> step_result) \<Rightarrow> step_result" where
  "then_step r f = (case r of Inl e \<Rightarrow> Inl e | Inr (cp, inp) \<Rightarrow> f cp inp)"

definition run_steps :: "clock \<Rightarrow> string list \<Rightarrow> step_result" where
  "run_steps now inp =
     then_step (then_step (then_step (then_step (then_step (then_step
       (get_scan_type init_parts inp)
       get_target)
       get_port_specification)
       get_timing_template)
       get_detection_options)
       (get_output_options now))
       get_misc_options"

section \<open>History store, templates and the post-build menu\<close>

text \<open>
  What outlives a procedure is the environment: the history file, whether it can be
  written, whether \<^verbatim>\<open>pyperclip\<close> can be imported, and the calls made to the external
  collaborators so far (the process runner, the script file, the clipboard). A procedure
  either returns, with the environment and the unread input, or raises, with the
  environment at the time of the exception.
\<close>

record history_entry =
  timestamp :: string
  command :: string
  entry_target :: string

datatype history_file = Missing | Corrupt | Stored "history_entry list"

datatype event =
    Run "string list"
  | WriteScript string string
  | Copy string

record env =
  history :: history_file
  writable :: bool
  pyperclip_installed :: bool
  events :: "event list"

datatype 'a outcome = Return 'a env "string list" | Raise error env

fun env_of :: "'a outcome \<Rightarrow> env" where
  \<comment> \<open>the environment a procedure leaves behind, however it ends\<close>
  "env_of (Return x w inp) = w"
| "env_of (Raise e w) = w"

definition save_command_history :: "clock \<Rightarrow> string \<Rightarrow> command_parts \<Rightarrow> env \<Rightarrow> env" where
  "save_command_history now cmd cp w =
     (let loaded = (case history w of Stored h \<Rightarrow> h | _ \<Rightarrow> []);
          history_entry = \<lparr>timestamp = iso now, command = cmd, entry_target = target cp\<rparr>;
          kept = py_last_n 50 (loaded @ [history_entry])
      in if writable w then w\<lparr>history := Stored kept\<rparr> else w)"

definition history_listing :: "history_entry list \<Rightarrow> (nat \<times> history_entry) list" where
  \<comment> \<open>the numbered lines printed by \<^verbatim>\<open>for i, entry in enumerate(history[-10:], 1)\<close>\<close>
  "history_listing h = enumerate 1 (py_last_n 10 h)"

definition show_command_history ::
  "clock \<Rightarrow> env \<Rightarrow> string list \<Rightarrow> (string option) outcome" where
  \<comment> \<open>the listing parses the timestamp of every entry it prints, before the prompt\<close>
  "show_command_history now w inp =
     (case history w of
        Missing \<Rightarrow> Return None w inp
      | Corrupt \<Rightarrow> Return None w inp
      | Stored h \<Rightarrow>
          if h = [] then Return None w inp
          else if \<not> list_all (\<lambda>entry. fromisoformat_ok now (timestamp entry)) (py_last_n 10 h)
          then Raise ValueError w
          else
            (case inp of
               [] \<Rightarrow> Raise EOFError w
             | l # ls \<Rightarrow>
                 let choice = py_strip l in
                 if py_isdigit choice then
                   (case py_int choice of
                      None \<Rightarrow> Raise ValueError w
                    | Some n \<Rightarrow>
                        if 1 \<le> n \<and> n \<le> min 10 (int (length h)) then
                          (case py_index h (- (11 - n)) of
                             Inl e \<Rightarrow> Raise e w
                           | Inr entry \<Rightarrow> Return (Some (command entry)) w ls)
                        else Return None w ls)
                 else Return None w ls))"

definition py_lower :: "string \<Rightarrow> string" where
  \<comment> \<open>\<^verbatim>\<open>str.lower()\<close> on the ASCII letters\<close>
  "py_lower s =
     map (\<lambda>c. case map_of (zip ''ABCDEFGHIJKLMNOPQRSTUVWXYZ'' ''abcdefghijklmnopqrstuvwxyz'') c of
                 Some d \<Rightarrow> d | None \<Rightarrow> c) s"

definition says_yes :: "string \<Rightarrow> bool" where
  \<comment> \<open>\<^verbatim>\<open>input(...).strip().lower() in ['y', 'yes']\<close>\<close>
  "says_yes l = (py_lower (py_strip l) \<in> set [''y'', ''yes''])"

definition execute_command :: "string \<Rightarrow> env \<Rightarrow> string list \<Rightarrow> unit outcome" where
  "execute_command cmd w inp =
     (case inp of
        [] \<Rightarrow> Raise EOFError w
      | l # ls \<Rightarrow>
          if \<not> says_yes l then Return () w ls
          else Return () (w\<lparr>events := events w @ [Run (py_split cmd)]\<rparr>) ls)"

definition ljust :: "nat \<Rightarrow> string \<Rightarrow> string" where
  "ljust n s = s @ replicate (n - length s) (CHR '' '')"

definition nl :: string where
  "nl = [CHR 0x0A]"

definition script_line :: "nat \<Rightarrow> nat \<times> string \<Rightarrow> string" where
  "script_line len ip =
     (case ip of (i, part) \<Rightarrow>
        if part = ''nmap'' then ''# '' @ ljust 15 part @ '' - Network exploration tool'' @ nl
        else if prefix ''-'' part then ''# '' @ ljust 15 part @ '' - NMAP option'' @ nl
        else if i + 1 = len then ''# '' @ ljust 15 part @ '' - Target specification'' @ nl
        else [])"

definition script_content :: "clock \<Rightarrow> string \<Rightarrow> string" where
  "script_content now cmd =
     (let parts = py_split cmd in
      ''#!/bin/bash'' @ nl @ ''# NMAP Scan Script'' @ nl
      @ ''# Generated by Interactive NMAP Command Builder'' @ nl
      @ ''# Author: Ross Durrer'' @ nl
      @ ''# Created: '' @ pretty now @ nl
      @ ''# '' @ nl
      @ ''# Command explanation:'' @ nl
      @ concat (map (script_line (length parts)) (enumerate 0 parts))
      @ nl @ ''# Full command:'' @ nl @ cmd @ nl)"

definition save_as_script :: "clock \<Rightarrow> string \<Rightarrow> env \<Rightarrow> string list \<Rightarrow> unit outcome" where
  "save_as_script now cmd w inp =
     (case inp of
        [] \<Rightarrow> Raise EOFError w
      | l # ls \<Rightarrow>
          if \<not> says_yes l then Return () w ls
          else
            (case ls of
               [] \<Rightarrow> Raise EOFError w
             | f # rest \<Rightarrow>
                 let default_script = ''nmap_scan_'' @ stamp now @ ''.sh'';
                     given = (if py_strip f = [] then default_script else py_strip f);
                     script_name = (if suffix ''.sh'' given then given else given @ ''.sh'')
                 in Return ()
                      (w\<lparr>events := events w @ [WriteScript script_name (script_content now cmd)]\<rparr>)
                      rest))"

definition press_enter :: "unit outcome \<Rightarrow> unit outcome" where
  \<comment> \<open>the \<^verbatim>\<open>input("Press Enter to continue...")\<close> that follows an action\<close>
  "press_enter r =
     (case r of
        Raise e w \<Rightarrow> Raise e w
      | Return u w inp \<Rightarrow> (case inp of [] \<Rightarrow> Raise EOFError w | _ # rest \<Rightarrow> Return () w rest))"

definition copy_to_clipboard :: "string \<Rightarrow> env \<Rightarrow> env" where
  "copy_to_clipboard cmd w =
     (if pyperclip_installed w then w\<lparr>events := events w @ [Copy cmd]\<rparr> else w)"

lemma execute_command_shorter:
  "execute_command cmd w inp = Return u w' rest \<Longrightarrow> length rest < length inp"
  by (auto simp: execute_command_def split: list.splits if_splits)

lemma save_as_script_shorter:
  "save_as_script now cmd w inp = Return u w' rest \<Longrightarrow> length rest < length inp"
  by (auto simp: save_as_script_def Let_def split: list.splits if_splits)

lemma press_enter_shorter:
  "press_enter r = Return u w' rest \<Longrightarrow> \<exists>v w0 inp. r = Return v w0 inp \<and> length rest < length inp"
  by (auto simp: press_enter_def split: outcome.splits list.splits)

function options_menu :: "clock \<Rightarrow> string \<Rightarrow> env \<Rightarrow> string list \<Rightarrow> unit outcome" where
  "options_menu now cmd w [] = Raise EOFError w"
| "options_menu now cmd w (l # ls) =
     (let choice = py_strip l in
      if choice = ''1'' then
        (case press_enter (execute_command cmd w ls) of
           Raise e w' \<Rightarrow> Raise e w'
         | Return u w' rest \<Rightarrow> options_menu now cmd w' rest)
      else if choice = ''2'' then
        (case press_enter (save_as_script now cmd w ls) of
           Raise e w' \<Rightarrow> Raise e w'
         | Return u w' rest \<Rightarrow> options_menu now cmd w' rest)
      else if choice = ''3'' then
        (case press_enter (Return () (copy_to_clipboard cmd w) ls) of
           Raise e w' \<Rightarrow> Raise e w'
         | Return u w' rest \<Rightarrow> options_menu now cmd w' rest)
      else if choice = ''4'' then
        (case ls of
           [] \<Rightarrow> Raise EOFError w
         | m # rest \<Rightarrow>
             let new_command = py_strip m in
             if new_command \<noteq> [] then options_menu now new_command w rest
             else options_menu now cmd w rest)
      else if choice = ''5'' then Return () w ls
      else
        (case ls of
           [] \<Rightarrow> Raise EOFError w
         | _ # rest \<Rightarrow> options_menu now cmd w rest))"
  by pat_completeness auto
termination
proof (relation "measure (\<lambda>(now, cmd, w, inp). length inp)")
  show "wf (measure (\<lambda>(now, cmd, w, inp). length inp))" by simp
qed (auto dest!: press_enter_shorter dest: execute_command_shorter save_as_script_shorter)

definition process_built_command ::
  "clock \<Rightarrow> string \<Rightarrow> command_parts \<Rightarrow> env \<Rightarrow> string list \<Rightarrow> unit outcome" where
  \<comment> \<open>print and explain the command, save it to the history, then run the options menu\<close>
  "process_built_command now cmd cp w inp =
     options_menu now cmd (save_command_history now cmd cp w) inp"

record template_entry =
  tpl_name :: string
  tpl_command :: string

definition templates :: "string \<rightharpoonup> template_entry" where
  \<comment> \<open>the local dictionary of \<^verbatim>\<open>quick_templates\<close>\<close>
  "templates = map_of
    [(''1'', \<lparr>tpl_name = ''Quick Host Discovery'', tpl_command = ''nmap -sn {target}''\<rparr>),
     (''2'', \<lparr>tpl_name = ''Fast TCP Scan'', tpl_command = ''nmap -F {target}''\<rparr>),
     (''3'', \<lparr>tpl_name = ''Comprehensive Scan'', tpl_command = ''nmap -sS -sV -O -A {target}''\<rparr>),
     (''4'', \<lparr>tpl_name = ''Stealth Scan'', tpl_command = ''nmap -sS -T1 -f {target}''\<rparr>),
     (''5'', \<lparr>tpl_name = ''UDP Service Scan'', tpl_command = ''nmap -sU --top-ports 20 {target}''\<rparr>),
     (''6'', \<lparr>tpl_name = ''Vulnerability Scan'', tpl_command = ''nmap -sV --script=vuln {target}''\<rparr>),
     (''7'', \<lparr>tpl_name = ''Web Server Scan'',
             tpl_command = ''nmap -p 80,443 -sV --script=http-* {target}''\<rparr>),
     (''8'', \<lparr>tpl_name = ''Full Port Scan'', tpl_command = ''nmap -p- -T4 {target}''\<rparr>)]"

fun format_target :: "string \<Rightarrow> string \<Rightarrow> string" where
  \<comment> \<open>\<^verbatim>\<open>pattern.format(target=t)\<close> for a pattern whose only braces are \<^verbatim>\<open>{target}\<close> fields\<close>
  "format_target [] t = []"
| "format_target (c # cs) t =
     (if prefix ''{target}'' (c # cs) then t @ format_target (drop 7 cs) t
      else c # format_target cs t)"

definition quick_templates ::
  "clock \<Rightarrow> command_parts \<Rightarrow> env \<Rightarrow> string list \<Rightarrow> unit outcome" where
  "quick_templates now cp w inp =
     (case inp of
        [] \<Rightarrow> Raise EOFError w
      | l # ls \<Rightarrow>
          let choice = py_strip l;
              r = (case templates choice of
                     None \<Rightarrow> Return () w ls
                   | Some template \<Rightarrow>
                       (case ls of
                          [] \<Rightarrow> Raise EOFError w
                        | t # rest \<Rightarrow>
                            let tgt = py_strip t in
                            if tgt \<noteq> [] then
                              process_built_command now
                                (format_target (tpl_command template) tgt) cp w rest
                            else Return () w rest))
          in if choice \<noteq> [] then press_enter r else r)"

definition show_help :: "env \<Rightarrow> string list \<Rightarrow> unit outcome" where
  "show_help w inp = press_enter (Return () w inp)"

definition build_new_command :: "clock \<Rightarrow> env \<Rightarrow> string list \<Rightarrow> command_parts outcome" where
  \<comment> \<open>returns the builder state it leaves in \<^verbatim>\<open>self.command_parts\<close>\<close>
  "build_new_command now w inp =
     (case run_steps now inp of
        Inl e \<Rightarrow> Raise e w
      | Inr (cp, rest) \<Rightarrow>
          (case process_built_command now (build_command cp) cp w rest of
             Raise e w' \<Rightarrow> Raise e w'
           | Return u w' rest' \<Rightarrow> Return cp w' rest'))"

text \<open>Every procedure hands back a part of the input it was given.\<close>

lemma get_scan_type_shorter:
  "get_scan_type cp inp = Inr (cp', rest) \<Longrightarrow> length rest \<le> length inp"
  by (induction inp) (auto split: option.splits)

lemma get_target_shorter:
  "get_target cp inp = Inr (cp', rest) \<Longrightarrow> length rest \<le> length inp"
  by (induction inp) (auto split: if_splits)

lemma custom_range_shorter:
  "custom_range cp inp = Inr (cp', rest) \<Longrightarrow> length rest \<le> length inp"
  by (induction cp inp rule: custom_range.induct) (fastforce split: option.splits if_splits)+

lemma custom_list_shorter:
  "custom_list cp inp = Inr (cp', rest) \<Longrightarrow> length rest \<le> length inp"
  by (induction inp) (auto simp: Let_def split: option.splits if_splits)

lemma custom_single_shorter:
  "custom_single cp inp = Inr (cp', rest) \<Longrightarrow> length rest \<le> length inp"
  by (induction inp) (auto split: option.splits if_splits)

lemma get_port_specification_shorter:
  "get_port_specification cp inp = Inr (cp', rest) \<Longrightarrow> length rest \<le> length inp"
  by (induction inp)
     (auto split: option.splits if_splits
           dest: custom_range_shorter custom_list_shorter custom_single_shorter)

lemma get_timing_template_shorter:
  "get_timing_template cp inp = Inr (cp', rest) \<Longrightarrow> length rest \<le> length inp"
  by (cases inp) (auto split: option.splits)

lemma detection_loop_shorter:
  "detection_loop cs inp fl = Inr (fl', rest) \<Longrightarrow> length rest \<le> length inp"
proof (induction cs arbitrary: inp fl)
  case Nil
  then show ?case by simp
next
  case (Cons c cs)
  then show ?case
    by (fastforce simp: Let_def split: option.splits if_splits list.splits)
qed

lemma get_detection_options_shorter:
  "get_detection_options cp inp = Inr (cp', rest) \<Longrightarrow> length rest \<le> length inp"
  by (cases inp)
     (auto simp: Let_def split: if_splits sum.splits dest: detection_loop_shorter)

lemma get_output_options_shorter:
  "get_output_options now cp inp = Inr (cp', rest) \<Longrightarrow> length rest \<le> length inp"
  by (cases inp) (auto simp: Let_def split: option.splits list.splits)

lemma get_misc_options_shorter:
  "get_misc_options cp inp = Inr (cp', rest) \<Longrightarrow> length rest \<le> length inp"
  by (cases inp) (auto simp: Let_def split: if_splits)

lemma then_step_Inr:
  "then_step r f = Inr (cp', rest) \<Longrightarrow> \<exists>cp0 i0. r = Inr (cp0, i0) \<and> f cp0 i0 = Inr (cp', rest)"
  by (auto simp: then_step_def split: sum.splits)

lemma run_steps_shorter:
  assumes "run_steps now inp = Inr (cp', rest)"
  shows "length rest \<le> length inp"
proof -
  from assms obtain c1 i1 c2 i2 c3 i3 c4 i4 c5 i5 c6 i6 where
    "get_scan_type init_parts inp = Inr (c1, i1)"
    "get_target c1 i1 = Inr (c2, i2)"
    "get_port_specification c2 i2 = Inr (c3, i3)"
    "get_timing_template c3 i3 = Inr (c4, i4)"
    "get_detection_options c4 i4 = Inr (c5, i5)"
    "get_output_options now c5 i5 = Inr (c6, i6)"
    "get_misc_options c6 i6 = Inr (cp', rest)"
    unfolding run_steps_def by (blast dest!: then_step_Inr)
  then have "length i1 \<le> length inp" "length i2 \<le> length i1" "length i3 \<le> length i2"
    "length i4 \<le> length i3" "length i5 \<le> length i4" "length i6 \<le> length i5"
    "length rest \<le> length i6"
    by (auto dest: get_scan_type_shorter get_target_shorter get_port_specification_shorter
        get_timing_template_shorter get_detection_options_shorter get_output_options_shorter
        get_misc_options_shorter)
  then show ?thesis by linarith
qed

lemma options_menu_shorter:
  "options_menu now cmd w inp = Return u w' rest \<Longrightarrow> length rest \<le> length inp"
proof (induction now cmd w inp rule: options_menu.induct)
  case (1 now cmd w)
  then show ?case by simp
next
  case (2 now cmd w l ls)
  show ?case
    using "2.prems" "2.IH"
    by (fastforce simp: Let_def split: if_splits outcome.splits list.splits
                  dest!: press_enter_shorter
                  dest: execute_command_shorter save_as_script_shorter)
qed

lemma process_built_command_shorter:
  "process_built_command now cmd cp w inp = Return u w' rest \<Longrightarrow> length rest \<le> length inp"
  unfolding process_built_command_def by (rule options_menu_shorter)

lemma quick_templates_shorter:
  "quick_templates now cp w inp = Return u w' rest \<Longrightarrow> length rest \<le> length inp"
  by (fastforce simp: quick_templates_def Let_def
                split: list.splits option.splits if_splits
                dest!: press_enter_shorter dest: process_built_command_shorter)

lemma show_command_history_shorter:
  "show_command_history now w inp = Return sel w' rest \<Longrightarrow> length rest \<le> length inp"
  by (auto simp: show_command_history_def Let_def
           split: history_file.splits list.splits option.splits if_splits sum.splits)

lemma show_help_shorter:
  "show_help w inp = Return u w' rest \<Longrightarrow> length rest \<le> length inp"
  by (auto simp: show_help_def dest!: press_enter_shorter)

lemma build_new_command_shorter:
  "build_new_command now w inp = Return cp w' rest \<Longrightarrow> length rest \<le> length inp"
  by (fastforce simp: build_new_command_def split: sum.splits outcome.splits
                dest: run_steps_shorter process_built_command_shorter)

text \<open>
  The main menu loops until option 5 raises \<^verbatim>\<open>SystemExit\<close> or another exception
  escapes, so it never returns: its result is the exception and the final environment.
\<close>

function main_menu :: "clock \<Rightarrow> command_parts \<Rightarrow> env \<Rightarrow> string list \<Rightarrow> error \<times> env" where
  "main_menu now cp w [] = (EOFError, w)"
| "main_menu now cp w (l # ls) =
     (let choice = py_strip l in
      if choice = ''1'' then
        (case build_new_command now w ls of
           Raise e w' \<Rightarrow> (e, w')
         | Return cp' w' rest \<Rightarrow> main_menu now cp' w' rest)
      else if choice = ''2'' then
        (case show_command_history now w ls of
           Raise e w' \<Rightarrow> (e, w')
         | Return selected_cmd w' rest \<Rightarrow>
             (case selected_cmd of
                None \<Rightarrow> main_menu now cp w' rest
              | Some c \<Rightarrow>
                  if c \<noteq> [] then
                    (case process_built_command now c cp w' rest of
                       Raise e w'' \<Rightarrow> (e, w'')
                     | Return u w'' rest' \<Rightarrow> main_menu now cp w'' rest')
                  else main_menu now cp w' rest))
      else if choice = ''3'' then
        (case quick_templates now cp w ls of
           Raise e w' \<Rightarrow> (e, w')
         | Return u w' rest \<Rightarrow> main_menu now cp w' rest)
      else if choice = ''4'' then
        (case show_help w ls of
           Raise e w' \<Rightarrow> (e, w')
         | Return u w' rest \<Rightarrow> main_menu now cp w' rest)
      else if choice = ''5'' then (SystemExit 0, w)
      else
        (case ls of
           [] \<Rightarrow> (EOFError, w)
         | _ # rest \<Rightarrow> main_menu now cp w rest))"
  by pat_completeness auto
termination
proof (relation "measure (\<lambda>(now, cp, w, inp). length inp)")
  show "wf (measure (\<lambda>(now, cp, w, inp). length inp))" by simp
qed (auto dest!: build_new_command_shorter show_command_history_shorter
       process_built_command_shorter quick_templates_shorter show_help_shorter)

definition run :: "bool \<Rightarrow> clock \<Rightarrow> env \<Rightarrow> string list \<Rightarrow> error \<times> env" where
  \<comment> \<open>\<^verbatim>\<open>NmapBuilder().run()\<close>: a new builder starts from the empty state; the first argument
      is the result of \<^verbatim>\<open>check_nmap_installed\<close>\<close>
  "run nmap_installed now w inp =
     (if \<not> nmap_installed then (SystemExit 1, w) else main_menu now init_parts w inp)"

section \<open>Example data\<close>

definition iso_shape :: "string \<Rightarrow> bool" where
  \<comment> \<open>the form \<^verbatim>\<open>YYYY-MM-DDTHH:MM:SS\<close> that \<^verbatim>\<open>isoformat()\<close> writes for a whole second\<close>
  "iso_shape s =
     list_all2 (\<lambda>p c. if p = CHR ''d'' then is_ascii_digit c else c = p) ''dddd-dd-ddTdd:dd:dd'' s"

definition example_clock :: clock where
  \<comment> \<open>a fixed instant, and a parser that accepts the timestamps of that form\<close>
  "example_clock = \<lparr>stamp = ''20250101_120000'', pretty = ''2025-01-01 12:00:00'',
                     iso = ''2025-01-01T12:00:00'', fromisoformat_ok = iso_shape\<rparr>"

definition example_entry :: "nat \<Rightarrow> history_entry" where
  "example_entry i = \<lparr>timestamp = ''2025-01-01T12:00:00'',
                       command = ''nmap -p '' @ py_str (int i) @ '' scanme'',
                       entry_target = ''scanme''\<rparr>"

definition example_history :: "nat \<Rightarrow> history_entry list" where
  \<comment> \<open>a stored history of \<open>n\<close> distinct entries, oldest first\<close>
  "example_history n = map example_entry [0..<n]"

definition example_env :: "history_entry list \<Rightarrow> env" where
  "example_env h = \<lparr>history = Stored h, writable = True, pyperclip_installed = True,
                     events = []\<rparr>"

definition fresh_env :: env where
  \<comment> \<open>a first run: no history file yet\<close>
  "fresh_env = \<lparr>history = Missing, writable = True, pyperclip_installed = True, events = []\<rparr>"

section \<open>Auxiliary facts\<close>

lemma py_join_snoc:
  "xs \<noteq> [] \<Longrightarrow> py_join sep (xs @ [t]) = py_join sep xs @ sep @ t"
  by (induction sep xs rule: py_join.induct) auto

lemma cmd_parts_snoc: "cmd_parts cp = butlast (cmd_parts cp) @ [target cp]"
  by (simp add: cmd_parts_def butlast_append)

lemma butlast_cmd_parts_nonempty: "butlast (cmd_parts cp) \<noteq> []"
  by (simp add: cmd_parts_def butlast_append)

lemma build_command_target_last:
  "build_command cp = py_join '' '' (butlast (cmd_parts cp)) @ '' '' @ target cp"
  unfolding build_command_def
  by (subst cmd_parts_snoc) (simp only: py_join_snoc [OF butlast_cmd_parts_nonempty])

lemma py_last_n_length: "length (py_last_n n xs) = min n (length xs)"
  by (auto simp: py_last_n_def)

lemma py_last_n_suffix: "suffix (py_last_n n xs) xs"
  by (simp add: py_last_n_def suffix_drop)

section \<open>Decimal rendering and parsing agree\<close>

lemma digit_char_in: "k < 10 \<Longrightarrow> ''0123456789'' ! k \<in> set ''0123456789''"
  by (rule nth_mem) simp

lemma digits_of_set: "set (digits_of n) \<subseteq> set ''0123456789''"
proof (induction n rule: digits_of.induct)
  case (1 n)
  show ?case
  proof (cases "n < 10")
    case True
    then show ?thesis using digit_char_in [of n] by (subst digits_of.simps) simp
  next
    case False
    have "n mod 10 < 10" by simp
    then have "''0123456789'' ! (n mod 10) \<in> set ''0123456789''" by (rule digit_char_in)
    with False 1 show ?thesis by (subst digits_of.simps) simp
  qed
qed

lemma digits_of_nonempty: "digits_of n \<noteq> []"
  by (subst digits_of.simps) simp

lemma digit_val_digit: "k < 10 \<Longrightarrow> digit_val (''0123456789'' ! k) = k"
proof -
  assume "k < 10"
  then have "k \<in> {0, 1, 2, 3, 4, 5, 6, 7, 8, 9}" by auto
  then show ?thesis by (auto simp: digit_val_def)
qed

lemma parse_digits_snoc: "parse_digits (ds @ [c]) = 10 * parse_digits ds + digit_val c"
  by (simp add: parse_digits_def)

lemma parse_digits_digits_of: "parse_digits (digits_of n) = n"
proof (induction n rule: digits_of.induct)
  case (1 n)
  show ?case
  proof (cases "n < 10")
    case True
    then show ?thesis
      by (subst digits_of.simps) (simp add: parse_digits_def digit_val_digit)
  next
    case False
    with 1 have "parse_digits (digits_of (n div 10)) = n div 10" by simp
    with False show ?thesis
      by (subst digits_of.simps) (simp add: parse_digits_snoc digit_val_digit)
  qed
qed

lemma digits_of_length: "n < 10 ^ k \<Longrightarrow> 0 < k \<Longrightarrow> length (digits_of n) \<le> k"
proof (induction n arbitrary: k rule: digits_of.induct)
  case (1 n)
  show ?case
  proof (cases "n < 10")
    case True
    then show ?thesis using 1(3) by (subst digits_of.simps) simp
  next
    case False
    from False 1(2) have "1 < k" by (cases "k = 1") (use 1(3) in auto)
    then obtain j where k: "k = Suc j" and j: "0 < j" by (cases k) auto
    from 1(2) k have "n div 10 < 10 ^ j" by (simp add: less_mult_imp_div_less mult.commute)
    with 1(1) [OF False this j] False k show ?thesis
      by (subst digits_of.simps) simp
  qed
qed

lemma split_on_absent: "d \<notin> set s \<Longrightarrow> split_on d w s = [w @ s]"
  by (induction s arbitrary: w) auto

lemma dropWhile_id: "\<forall>c\<in>set s. \<not> P c \<Longrightarrow> dropWhile P s = s"
  by (cases s) auto

lemma py_strip_id: "\<forall>c\<in>set s. \<not> py_isspace c \<Longrightarrow> py_strip s = s"
  by (simp add: py_strip_def dropWhile_id)

lemma digit_chars_facts:
  assumes "c \<in> set ''0123456789''"
  shows "\<not> py_isspace c" "c \<noteq> CHR ''_''" "c \<noteq> CHR ''-''" "c \<noteq> CHR ''+''" "is_ascii_digit c"
  using assms by (auto simp: py_isspace_def is_ascii_digit_def)

lemma parse_unsigned_digits_of:
  assumes "length (digits_of n) \<le> max_str_digits"
  shows "parse_unsigned (digits_of n) = Some n"
proof -
  have a: "\<forall>c\<in>set (digits_of n). is_ascii_digit c \<and> c \<noteq> CHR ''_''"
    using digits_of_set [of n] digit_chars_facts by blast
  then have "CHR ''_'' \<notin> set (digits_of n)" by blast
  then have "py_split_on (CHR ''_'') (digits_of n) = [digits_of n]"
    by (simp add: py_split_on_def split_on_absent)
  with a assms show ?thesis
    by (simp add: parse_unsigned_def digits_of_nonempty list_all_iff parse_digits_digits_of)
qed

lemma py_int_py_str_nonneg:
  assumes "0 \<le> i" and "length (digits_of (nat i)) \<le> max_str_digits"
  shows "py_int (py_str i) = Some i" and "py_strip (py_str i) = py_str i"
    and "py_isdigit (py_str i)"
proof -
  let ?d = "digits_of (nat i)"
  have s: "py_str i = ?d" using assms(1) by (simp add: py_str_def)
  have a: "\<forall>c\<in>set ?d. \<not> py_isspace c \<and> c \<noteq> CHR ''-'' \<and> c \<noteq> CHR ''+'' \<and> is_ascii_digit c"
    using digits_of_set [of "nat i"] digit_chars_facts by blast
  then show st: "py_strip (py_str i) = py_str i" by (simp add: s py_strip_id)
  obtain c r where cr: "?d = c # r" using digits_of_nonempty [of "nat i"] by (cases ?d) auto
  with a have "c \<noteq> CHR ''-''" "c \<noteq> CHR ''+''" by auto
  then have "py_int (py_str i) = map_option int (parse_unsigned ?d)"
    using st cr by (simp add: py_int_def s)
  then show "py_int (py_str i) = Some i"
    using parse_unsigned_digits_of [OF assms(2)] assms(1) by simp
  show "py_isdigit (py_str i)"
    using a digits_of_nonempty [of "nat i"] by (simp add: py_isdigit_def s list_all_iff)
qed

lemma py_int_py_str_port:
  assumes "0 \<le> i" and "i \<le> 65535"
  shows "py_int (py_strip (py_str i)) = Some i"
proof -
  have "nat i < 10 ^ 5" using assms by simp
  then have "length (digits_of (nat i)) \<le> 5" by (rule digits_of_length) simp
  then have "length (digits_of (nat i)) \<le> max_str_digits" by (simp add: max_str_digits_def)
  with py_int_py_str_nonneg [OF assms(1)] show ?thesis by simp
qed

section \<open>The target through the step sequence\<close>

lemma get_target_nonempty:
  "get_target cp inp = Inr (cp', rest) \<Longrightarrow> target cp' \<noteq> []"
  by (induction inp) (auto split: if_splits)

lemma custom_range_target:
  "custom_range cp inp = Inr (cp', rest) \<Longrightarrow> target cp' = target cp"
  by (induction cp inp rule: custom_range.induct) (fastforce split: option.splits if_splits)+

lemma custom_list_target:
  "custom_list cp inp = Inr (cp', rest) \<Longrightarrow> target cp' = target cp"
  by (induction inp) (auto simp: Let_def split: option.splits if_splits)

lemma custom_single_target:
  "custom_single cp inp = Inr (cp', rest) \<Longrightarrow> target cp' = target cp"
  by (induction inp) (auto split: option.splits if_splits)

lemma get_port_specification_target:
  "get_port_specification cp inp = Inr (cp', rest) \<Longrightarrow> target cp' = target cp"
  by (induction inp)
     (auto split: option.splits if_splits
           dest: custom_range_target custom_list_target custom_single_target)

lemma get_timing_template_target:
  "get_timing_template cp inp = Inr (cp', rest) \<Longrightarrow> target cp' = target cp"
  by (cases inp) (auto split: option.splits)

lemma get_detection_options_target:
  "get_detection_options cp inp = Inr (cp', rest) \<Longrightarrow> target cp' = target cp"
  by (cases inp) (auto simp: Let_def split: if_splits sum.splits)

lemma get_output_options_target:
  "get_output_options now cp inp = Inr (cp', rest) \<Longrightarrow> target cp' = target cp"
  by (cases inp) (auto simp: Let_def split: option.splits list.splits)

lemma get_misc_options_target:
  "get_misc_options cp inp = Inr (cp', rest) \<Longrightarrow> target cp' = target cp"
  by (cases inp) (auto simp: Let_def split: if_splits)

lemma run_steps_cases:
  assumes "run_steps now inp = Inr (cp', rest)"
  obtains c1 i1 c2 i2 c3 i3 c4 i4 c5 i5 c6 i6 where
    "get_scan_type init_parts inp = Inr (c1, i1)"
    "get_target c1 i1 = Inr (c2, i2)"
    "get_port_specification c2 i2 = Inr (c3, i3)"
    "get_timing_template c3 i3 = Inr (c4, i4)"
    "get_detection_options c4 i4 = Inr (c5, i5)"
    "get_output_options now c5 i5 = Inr (c6, i6)"
    "get_misc_options c6 i6 = Inr (cp', rest)"
  using assms unfolding run_steps_def by (blast dest!: then_step_Inr)

lemma run_steps_target_nonempty:
  assumes "run_steps now inp = Inr (cp', rest)"
  shows "target cp' \<noteq> []"
proof -
  from assms obtain c1 i1 c2 i2 c3 i3 c4 i4 c5 i5 c6 i6 where
    s: "get_target c1 i1 = Inr (c2, i2)"
    "get_port_specification c2 i2 = Inr (c3, i3)"
    "get_timing_template c3 i3 = Inr (c4, i4)"
    "get_detection_options c4 i4 = Inr (c5, i5)"
    "get_output_options now c5 i5 = Inr (c6, i6)"
    "get_misc_options c6 i6 = Inr (cp', rest)"
    by (rule run_steps_cases)
  have "target cp' = target c2"
    using s(2-6)
    by (simp add: get_port_specification_target get_timing_template_target
        get_detection_options_target get_output_options_target get_misc_options_target)
  with get_target_nonempty [OF s(1)] show ?thesis by simp
qed

lemmas py_defs =
  py_strip_def py_isspace_def py_split_def py_split_on_def py_isdigit_def is_ascii_digit_def
  py_int_def parse_unsigned_def parse_digits_def digit_val_def max_str_digits_def
  py_str_def digits_of.simps py_last_n_def py_index_def py_lower_def says_yes_def

lemmas catalog_defs =
  scan_types_def timing_templates_def output_formats_def detection_options_def
  port_options_def templates_def

section \<open>The history store keeps the newest fifty entries\<close>

text \<open>
  C5. \<^verbatim>\<open>save_command_history\<close> appends the new entry to the stored sequence and keeps
  the slice \<^verbatim>\<open>history[-50:]\<close>: the result has at most 50 entries, it is a suffix of the
  old sequence followed by the new entry (so the most recent entries, in their order), a
  full history of 50 loses exactly its oldest entry, and a shorter one loses nothing.
\<close>

theorem save_command_history_fifo:
  assumes "history w = Stored h" and "writable w"
    and "e = \<lparr>timestamp = iso now, command = cmd, entry_target = target cp\<rparr>"
  shows "history (save_command_history now cmd cp w) = Stored (py_last_n 50 (h @ [e]))
    \<and> length (py_last_n 50 (h @ [e])) \<le> 50
    \<and> suffix (py_last_n 50 (h @ [e])) (h @ [e])
    \<and> (length h = 50 \<longrightarrow> py_last_n 50 (h @ [e]) = tl h @ [e])
    \<and> (length h < 50 \<longrightarrow> py_last_n 50 (h @ [e]) = h @ [e])"
proof -
  have "history (save_command_history now cmd cp w) = Stored (py_last_n 50 (h @ [e]))"
    using assms by (simp add: save_command_history_def)
  moreover have "length (py_last_n 50 (h @ [e])) \<le> 50"
    by (simp add: py_last_n_length)
  moreover have "suffix (py_last_n 50 (h @ [e])) (h @ [e])"
    by (rule py_last_n_suffix)
  moreover have "py_last_n 50 (h @ [e]) = tl h @ [e]" if "length h = 50"
    using that by (cases h) (simp_all add: py_last_n_def)
  moreover have "py_last_n 50 (h @ [e]) = h @ [e]" if "length h < 50"
    using that by (simp add: py_last_n_def)
  ultimately show ?thesis by blast
qed

theorem save_command_history_fifo_witness:
  "length (example_history 50) = 50
   \<and> history (save_command_history example_clock ''nmap -sn 10.0.0.1'' init_parts
                (example_env (example_history 50)))
       = Stored (tl (example_history 50)
                 @ [\<lparr>timestamp = ''2025-01-01T12:00:00'', command = ''nmap -sn 10.0.0.1'',
                     entry_target = []\<rparr>])
   \<and> length (example_history 3) < 50
   \<and> history (save_command_history example_clock ''nmap -sn 10.0.0.1'' init_parts
                (example_env (example_history 3)))
       = Stored (example_history 3
                 @ [\<lparr>timestamp = ''2025-01-01T12:00:00'', command = ''nmap -sn 10.0.0.1'',
                     entry_target = []\<rparr>])"
proof -
  have l50: "length (example_history 50) = 50" and l3: "length (example_history 3) < 50"
    by (simp_all add: example_history_def)
  have e: "\<lparr>timestamp = ''2025-01-01T12:00:00'', command = ''nmap -sn 10.0.0.1'',
             entry_target = []\<rparr>
           = \<lparr>timestamp = iso example_clock, command = ''nmap -sn 10.0.0.1'',
               entry_target = target init_parts\<rparr>"
    by (simp add: example_clock_def init_parts_def)
  have h: "history (example_env x) = Stored x" "writable (example_env x)" for x
    by (simp_all add: example_env_def)
  show ?thesis
    using save_command_history_fifo [OF h(1) h(2) e, of "example_history 50"]
      save_command_history_fifo [OF h(1) h(2) e, of "example_history 3"] l50 l3
    by simp
qed

section \<open>Rendering\<close>

text \<open>
  C3 (as stated, refuted). The claim says that rendering fails when the target is empty.
  \<^verbatim>\<open>build_command\<close> has no such check: on the reset state, whose target is empty, it
  returns the tool name followed by a space.
\<close>

theorem build_command_empty_target_counterexample:
  "target init_parts = [] \<and> build_command init_parts = ''nmap ''"
  by (simp add: init_parts_def build_command_def cmd_parts_def)

text \<open>
  C3 (amended). \<^verbatim>\<open>build_command\<close> renders every state: with an empty target the result
  is the joined option tokens followed by one space. The non-empty target is enforced
  before rendering, by the step sequence: a state that the seven steps hand to
  \<^verbatim>\<open>build_command\<close> has a non-empty target.
\<close>

theorem build_command_total_target_upstream:
  "(target cp = [] \<longrightarrow> build_command cp = py_join '' '' (butlast (cmd_parts cp)) @ '' '')
   \<and> (run_steps now inp = Inr (cp', rest) \<longrightarrow> target cp' \<noteq> [])"
  using build_command_target_last [of cp] run_steps_target_nonempty [of now inp cp' rest]
  by auto

theorem build_command_total_target_upstream_witness:
  "target (init_parts\<lparr>scan_type := ''-sS''\<rparr>) = []
   \<and> build_command (init_parts\<lparr>scan_type := ''-sS''\<rparr>) = ''nmap -sS ''
   \<and> run_steps example_clock [''1'', [], ''10.0.0.1'', ''1'', [], [], [], []]
       = Inr (init_parts\<lparr>scan_type := ''-sS'', target := ''10.0.0.1''\<rparr>, [])
   \<and> target (init_parts\<lparr>scan_type := ''-sS'', target := ''10.0.0.1''\<rparr>) \<noteq> []"
proof -
  have t: "target (init_parts\<lparr>scan_type := ''-sS''\<rparr>) = []"
    by (simp add: init_parts_def)
  have r: "run_steps example_clock [''1'', [], ''10.0.0.1'', ''1'', [], [], [], []]
       = Inr (init_parts\<lparr>scan_type := ''-sS'', target := ''10.0.0.1''\<rparr>, [])"
    by (simp add: run_steps_def then_step_def init_parts_def py_defs catalog_defs)
  have b: "py_join '' '' (butlast (cmd_parts (init_parts\<lparr>scan_type := ''-sS''\<rparr>))) @ '' ''
           = ''nmap -sS ''"
    by (simp add: cmd_parts_def init_parts_def)
  show ?thesis
    using build_command_total_target_upstream
      [of "init_parts\<lparr>scan_type := ''-sS''\<rparr>" example_clock
          "[''1'', [], ''10.0.0.1'', ''1'', [], [], [], []]"
          "init_parts\<lparr>scan_type := ''-sS'', target := ''10.0.0.1''\<rparr>" "[]"]
      t r b
    by simp
qed

text \<open>
  C4. For every builder state, \<^verbatim>\<open>build_command\<close> joins with single spaces, in this order:
  the tool name, the scan type, the ports, the timing, the detection flags, the output
  option, the extra options and the target; empty fields contribute nothing. The
  rendering ends with a space and the target. It depends on the field values only, not on
  the order in which they were stored, and the state with scan type \<^verbatim>\<open>-sS\<close>, ports
  \<^verbatim>\<open>-p 80,443\<close> and target \<^verbatim>\<open>10.0.0.1\<close> renders to \<^verbatim>\<open>nmap -sS -p 80,443 10.0.0.1\<close>.
\<close>

theorem build_command_order:
  "build_command cp =
     py_join '' ''
       ([''nmap'']
        @ (if scan_type cp = [] then [] else [scan_type cp])
        @ (if ports cp = [] then [] else [ports cp])
        @ (if timing cp = [] then [] else [timing cp])
        @ py_split (detection cp)
        @ py_split (output cp)
        @ misc_options cp
        @ [target cp])
   \<and> build_command cp = py_join '' '' (butlast (cmd_parts cp)) @ '' '' @ target cp
   \<and> build_command (cp\<lparr>scan_type := s, ports := p, target := t\<rparr>)
       = build_command (cp\<lparr>target := t, ports := p, scan_type := s\<rparr>)
   \<and> build_command (init_parts\<lparr>ports := ''-p 80,443'', scan_type := ''-sS'',
                                  target := ''10.0.0.1''\<rparr>)
       = ''nmap -sS -p 80,443 10.0.0.1''
   \<and> build_command (init_parts\<lparr>scan_type := ''-sS'', target := ''10.0.0.1'',
                                  ports := ''-p 80,443''\<rparr>)
       = ''nmap -sS -p 80,443 10.0.0.1''"
proof -
  have sp: "py_split [] = []" by (simp add: py_split_def)
  have "build_command cp =
     py_join '' ''
       ([''nmap'']
        @ (if scan_type cp = [] then [] else [scan_type cp])
        @ (if ports cp = [] then [] else [ports cp])
        @ (if timing cp = [] then [] else [timing cp])
        @ py_split (detection cp)
        @ py_split (output cp)
        @ misc_options cp
        @ [target cp])"
    by (simp add: build_command_def cmd_parts_def sp)
  moreover have "build_command (cp\<lparr>scan_type := s, ports := p, target := t\<rparr>)
       = build_command (cp\<lparr>target := t, ports := p, scan_type := s\<rparr>)"
    by (simp add: build_command_def cmd_parts_def)
  moreover have "build_command (init_parts\<lparr>ports := ''-p 80,443'', scan_type := ''-sS'',
                                  target := ''10.0.0.1''\<rparr>)
       = ''nmap -sS -p 80,443 10.0.0.1''"
    by (simp add: build_command_def cmd_parts_def init_parts_def)
  moreover have "build_command (init_parts\<lparr>scan_type := ''-sS'', target := ''10.0.0.1'',
                                  ports := ''-p 80,443''\<rparr>)
       = ''nmap -sS -p 80,443 10.0.0.1''"
    by (simp add: build_command_def cmd_parts_def init_parts_def)
  ultimately show ?thesis using build_command_target_last [of cp] by blast
qed

theorem build_command_order_witness:
  "build_command \<lparr>scan_type = ''-sU'', target = ''192.168.1.0/24'', ports = ''--top-ports 100'',
                   timing = ''-T4'', detection = ''-sV -O'', output = ''-oX scan.xml'',
                   misc_options = [''-v'', ''-Pn'']\<rparr>
   = ''nmap -sU --top-ports 100 -T4 -sV -O -oX scan.xml -v -Pn 192.168.1.0/24''"
  using build_command_order
    [of "\<lparr>scan_type = ''-sU'', target = ''192.168.1.0/24'', ports = ''--top-ports 100'',
           timing = ''-T4'', detection = ''-sV -O'', output = ''-oX scan.xml'',
           misc_options = [''-v'', ''-Pn'']\<rparr>"]
  by (simp add: py_defs)

section \<open>Which steps an empty line skips\<close>

text \<open>
  C2 (as stated, refuted). The claim lets every step but Target be skipped by an empty
  line. The ScanType step is not skipped: after an empty line it asks again, and the next
  line \<^verbatim>\<open>1\<close> stores \<^verbatim>\<open>-sS\<close>; with nothing but the empty line the step does not
  return. The Ports step behaves the same way.
\<close>

theorem empty_input_skips_counterexample:
  "get_scan_type init_parts [[], ''1''] = Inr (init_parts\<lparr>scan_type := ''-sS''\<rparr>, [])
   \<and> get_scan_type init_parts [[]] = Inl EOFError
   \<and> get_port_specification init_parts [[], ''2''] = Inr (init_parts\<lparr>ports := ''-F''\<rparr>, [])
   \<and> get_port_specification init_parts [[]] = Inl EOFError"
  by (simp add: py_defs catalog_defs)

lemma get_scan_type_skips:
  "list_all (\<lambda>j. scan_types (py_strip j) = None) junk
   \<Longrightarrow> get_scan_type cp (junk @ inp) = get_scan_type cp inp"
  by (induction junk) simp_all

lemma get_port_specification_skips:
  "list_all (\<lambda>j. port_options (py_strip j) = None) junk
   \<Longrightarrow> get_port_specification cp (junk @ inp) = get_port_specification cp inp"
  by (induction junk) simp_all

lemma get_target_skips:
  "list_all (\<lambda>j. py_strip j = []) junk \<Longrightarrow> get_target cp (junk @ inp) = get_target cp inp"
  by (induction junk) simp_all

lemma scan_type_keys: "dom scan_types = set (map (\<lambda>n. py_str (int n)) [1..<13])"
  unfolding scan_types_def dom_map_of_conv_image_fst
  by (simp add: upt_rec py_str_def digits_of.simps)

lemma port_option_keys: "dom port_options = set (map (\<lambda>n. py_str (int n)) [1..<14])"
  unfolding port_options_def dom_map_of_conv_image_fst
  by (simp add: upt_rec py_str_def digits_of.simps)

text \<open>
  C2 (amended). On a line that is empty after stripping, the Timing, Detection, Output and
  Misc steps return at once and leave the state as it is. The ScanType, Target and Ports
  steps ask again: they go on with the next line. ScanType asks again on every line that
  is not one of its keys 1 to 12, however many such lines come, and returns on the first
  key with the flag of that key stored, so its field is never left absent. Ports asks
  again on every line that is not one of its keys 1 to 13 and leaves its loop on the first
  key (for the custom dialogues or with the preset of the key). Target asks again on every
  empty line and returns on the first non-empty one, which it stores. The keys of a
  catalog are the decimal numerals of the numbers named.
\<close>

theorem empty_input_per_step:
  assumes "py_strip l = []"
  shows "get_timing_template cp (l # ls) = Inr (cp, ls)
    \<and> get_detection_options cp (l # ls) = Inr (cp, ls)
    \<and> get_output_options now cp (l # ls) = Inr (cp, ls)
    \<and> get_misc_options cp (l # ls) = Inr (cp, ls)
    \<and> get_scan_type cp (l # ls) = get_scan_type cp ls
    \<and> get_target cp (l # ls) = get_target cp ls
    \<and> get_port_specification cp (l # ls) = get_port_specification cp ls
    \<and> (get_scan_type cp inp = Inr (cp', rest) \<longrightarrow> scan_type cp' \<noteq> [])
    \<and> (get_target cp inp = Inr (cp', rest) \<longrightarrow> target cp' \<noteq> [])
    \<and> (scan_types (py_strip k) = None \<longrightarrow> get_scan_type cp (k # ls) = get_scan_type cp ls)
    \<and> (scan_types (py_strip k) = Some sel \<longrightarrow>
          get_scan_type cp (k # ls) = Inr (cp\<lparr>scan_type := opt_flag sel\<rparr>, ls))
    \<and> (list_all (\<lambda>j. scan_types (py_strip j) = None) junk \<longrightarrow>
          get_scan_type cp (junk @ inp) = get_scan_type cp inp)
    \<and> dom scan_types = set (map (\<lambda>n. py_str (int n)) [1..<13])
    \<and> (port_options (py_strip k) = None \<longrightarrow>
          get_port_specification cp (k # ls) = get_port_specification cp ls)
    \<and> (port_options (py_strip k) = Some psel \<longrightarrow>
          get_port_specification cp (k # ls) =
            (if opt_flag psel = ''custom_range'' then custom_range cp ls
             else if opt_flag psel = ''custom_list'' then custom_list cp ls
             else if opt_flag psel = ''custom_single'' then custom_single cp ls
             else if opt_flag psel \<noteq> [] then Inr (cp\<lparr>ports := opt_flag psel\<rparr>, ls)
             else Inr (cp, ls)))
    \<and> (list_all (\<lambda>j. port_options (py_strip j) = None) junk \<longrightarrow>
          get_port_specification cp (junk @ inp) = get_port_specification cp inp)
    \<and> dom port_options = set (map (\<lambda>n. py_str (int n)) [1..<14])
    \<and> (py_strip k \<noteq> [] \<longrightarrow> get_target cp (k # ls) = Inr (cp\<lparr>target := py_strip k\<rparr>, ls))
    \<and> (list_all (\<lambda>j. py_strip j = []) junk \<longrightarrow> get_target cp (junk @ inp) = get_target cp inp)"
proof -
  have none: "timing_templates [] = None" "output_formats [] = None" "scan_types [] = None"
    "port_options [] = None"
    by (simp_all add: catalog_defs)
  have scan: "scan_type cp' \<noteq> []" if "get_scan_type cp inp = Inr (cp', rest)"
    using that
  proof (induction inp)
    case Nil
    then show ?case by simp
  next
    case (Cons a inp)
    show ?case
    proof (cases "scan_types (py_strip a)")
      case None
      with Cons show ?thesis by simp
    next
      case (Some selected)
      then have "opt_flag selected \<noteq> []"
        by (auto simp: scan_types_def split: if_splits)
      with Some Cons.prems show ?thesis by auto
    qed
  qed
  have empty: "get_timing_template cp (l # ls) = Inr (cp, ls)
    \<and> get_detection_options cp (l # ls) = Inr (cp, ls)
    \<and> get_output_options now cp (l # ls) = Inr (cp, ls)
    \<and> get_misc_options cp (l # ls) = Inr (cp, ls)
    \<and> get_scan_type cp (l # ls) = get_scan_type cp ls
    \<and> get_target cp (l # ls) = get_target cp ls
    \<and> get_port_specification cp (l # ls) = get_port_specification cp ls"
    using assms none by (simp add: Let_def)
  have keys: "scan_types (py_strip k) = None \<longrightarrow> get_scan_type cp (k # ls) = get_scan_type cp ls"
    "scan_types (py_strip k) = Some sel \<longrightarrow>
          get_scan_type cp (k # ls) = Inr (cp\<lparr>scan_type := opt_flag sel\<rparr>, ls)"
    "port_options (py_strip k) = None \<longrightarrow>
          get_port_specification cp (k # ls) = get_port_specification cp ls"
    "port_options (py_strip k) = Some psel \<longrightarrow>
          get_port_specification cp (k # ls) =
            (if opt_flag psel = ''custom_range'' then custom_range cp ls
             else if opt_flag psel = ''custom_list'' then custom_list cp ls
             else if opt_flag psel = ''custom_single'' then custom_single cp ls
             else if opt_flag psel \<noteq> [] then Inr (cp\<lparr>ports := opt_flag psel\<rparr>, ls)
             else Inr (cp, ls))"
    "py_strip k \<noteq> [] \<longrightarrow> get_target cp (k # ls) = Inr (cp\<lparr>target := py_strip k\<rparr>, ls)"
    by simp_all
  from empty keys scan get_target_nonempty [of cp inp cp' rest]
    get_scan_type_skips [of junk cp inp] get_port_specification_skips [of junk cp inp]
    get_target_skips [of junk cp inp] scan_type_keys port_option_keys
  show ?thesis by blast
qed

theorem empty_input_per_step_witness:
  "py_strip ''  '' = []
   \<and> get_timing_template init_parts [''  '', ''4''] = Inr (init_parts, [''4''])
   \<and> get_detection_options init_parts [''  '', ''4''] = Inr (init_parts, [''4''])
   \<and> get_output_options example_clock init_parts [''  '', ''4''] = Inr (init_parts, [''4''])
   \<and> get_misc_options init_parts [''  '', ''4''] = Inr (init_parts, [''4''])
   \<and> get_scan_type init_parts [''  '', ''4''] = Inr (init_parts\<lparr>scan_type := ''-sA''\<rparr>, [])
   \<and> get_target init_parts [''  '', ''4''] = Inr (init_parts\<lparr>target := ''4''\<rparr>, [])
   \<and> get_port_specification init_parts [''  '', ''4'']
       = Inr (init_parts\<lparr>ports := ''--top-ports 100''\<rparr>, [])
   \<and> scan_type (init_parts\<lparr>scan_type := ''-sA''\<rparr>) \<noteq> []
   \<and> target (init_parts\<lparr>target := ''4''\<rparr>) \<noteq> []
   \<and> scan_types (py_strip ''13'') = None
   \<and> list_all (\<lambda>j. scan_types (py_strip j) = None) [''  '', ''abc'', ''0'', ''13'']
   \<and> get_scan_type init_parts [''  '', ''abc'', ''0'', ''13'', ''4'']
       = Inr (init_parts\<lparr>scan_type := ''-sA''\<rparr>, [])
   \<and> get_scan_type init_parts [''  '', ''abc'', ''0'', ''13''] = Inl EOFError
   \<and> port_options (py_strip ''14'') = None
   \<and> list_all (\<lambda>j. port_options (py_strip j) = None) [''  '', ''abc'', ''0'', ''14'']
   \<and> get_port_specification init_parts [''  '', ''abc'', ''0'', ''14'', ''4'']
       = Inr (init_parts\<lparr>ports := ''--top-ports 100''\<rparr>, [])
   \<and> get_port_specification init_parts [''  '', ''abc'', ''0'', ''14''] = Inl EOFError
   \<and> list_all (\<lambda>j. py_strip j = []) [''  '', []]
   \<and> get_target init_parts [''  '', [], '' scanme ''] = Inr (init_parts\<lparr>target := ''scanme''\<rparr>, [])"
proof -
  have e: "py_strip ''  '' = []" by (simp add: py_defs)
  have s: "get_scan_type init_parts [''4''] = Inr (init_parts\<lparr>scan_type := ''-sA''\<rparr>, [])"
    "get_target init_parts [''4''] = Inr (init_parts\<lparr>target := ''4''\<rparr>, [])"
    "get_port_specification init_parts [''4''] = Inr (init_parts\<lparr>ports := ''--top-ports 100''\<rparr>, [])"
    by (simp_all add: py_defs catalog_defs)
  have k: "scan_types (py_strip ''13'') = None" "port_options (py_strip ''14'') = None"
    "scan_types (py_strip ''4'') = Some \<lparr>opt_name = ''TCP ACK Scan'', opt_flag = ''-sA''\<rparr>"
    "port_options (py_strip ''4'') = Some \<lparr>opt_name = ''Top 100 ports'', opt_flag = ''--top-ports 100''\<rparr>"
    "py_strip '' scanme '' \<noteq> []" "py_strip '' scanme '' = ''scanme''"
    by (simp_all add: py_defs catalog_defs)
  have j: "list_all (\<lambda>j. scan_types (py_strip j) = None) [''  '', ''abc'', ''0'', ''13'']"
    "list_all (\<lambda>j. port_options (py_strip j) = None) [''  '', ''abc'', ''0'', ''14'']"
    "list_all (\<lambda>j. py_strip j = []) [''  '', []]"
    by (simp_all add: py_defs catalog_defs)
  note t = empty_input_per_step [OF e]
  have first: "get_timing_template init_parts [''  '', ''4''] = Inr (init_parts, [''4''])
   \<and> get_detection_options init_parts [''  '', ''4''] = Inr (init_parts, [''4''])
   \<and> get_output_options example_clock init_parts [''  '', ''4''] = Inr (init_parts, [''4''])
   \<and> get_misc_options init_parts [''  '', ''4''] = Inr (init_parts, [''4''])
   \<and> get_scan_type init_parts [''  '', ''4''] = Inr (init_parts\<lparr>scan_type := ''-sA''\<rparr>, [])
   \<and> get_target init_parts [''  '', ''4''] = Inr (init_parts\<lparr>target := ''4''\<rparr>, [])
   \<and> get_port_specification init_parts [''  '', ''4'']
       = Inr (init_parts\<lparr>ports := ''--top-ports 100''\<rparr>, [])"
    using t [where cp = init_parts and ls = "[''4'']" and now = example_clock] s by simp
  have nonempty: "scan_type (init_parts\<lparr>scan_type := ''-sA''\<rparr>) \<noteq> []"
    "target (init_parts\<lparr>target := ''4''\<rparr>) \<noteq> []"
    using t [where cp = init_parts and inp = "[''4'']"
               and cp' = "init_parts\<lparr>scan_type := ''-sA''\<rparr>" and rest = "[]"]
      t [where cp = init_parts and inp = "[''4'']"
               and cp' = "init_parts\<lparr>target := ''4''\<rparr>" and rest = "[]"] s
    by simp_all
  have scan_loop: "get_scan_type init_parts [''  '', ''abc'', ''0'', ''13'', ''4'']
       = Inr (init_parts\<lparr>scan_type := ''-sA''\<rparr>, [])"
    "get_scan_type init_parts [''  '', ''abc'', ''0'', ''13''] = Inl EOFError"
    using t [where cp = init_parts and junk = "[''  '', ''abc'', ''0'', ''13'']" and inp = "[''4'']"]
      t [where cp = init_parts and junk = "[''  '', ''abc'', ''0'', ''13'']" and inp = "[]"]
      t [where cp = init_parts and k = "''4''" and ls = "[]"
           and sel = "\<lparr>opt_name = ''TCP ACK Scan'', opt_flag = ''-sA''\<rparr>"] j k
    by simp_all
  have port_loop: "get_port_specification init_parts [''  '', ''abc'', ''0'', ''14'', ''4'']
       = Inr (init_parts\<lparr>ports := ''--top-ports 100''\<rparr>, [])"
    "get_port_specification init_parts [''  '', ''abc'', ''0'', ''14''] = Inl EOFError"
    using t [where cp = init_parts and junk = "[''  '', ''abc'', ''0'', ''14'']" and inp = "[''4'']"]
      t [where cp = init_parts and junk = "[''  '', ''abc'', ''0'', ''14'']" and inp = "[]"]
      t [where cp = init_parts and k = "''4''" and ls = "[]"
           and psel = "\<lparr>opt_name = ''Top 100 ports'', opt_flag = ''--top-ports 100''\<rparr>"] j k
    by simp_all
  have target_loop: "get_target init_parts [''  '', [], '' scanme '']
       = Inr (init_parts\<lparr>target := ''scanme''\<rparr>, [])"
    using t [where cp = init_parts and junk = "[''  '', []]" and inp = "['' scanme '']"]
      t [where cp = init_parts and k = "'' scanme ''" and ls = "[]"] j k
    by simp
  from e first nonempty k(1,2) j scan_loop port_loop target_loop show ?thesis by blast
qed

section \<open>Port ranges\<close>

text \<open>
  C6. In the custom-range dialogue, two lines that \<^verbatim>\<open>int\<close> reads as \<open>a\<close> and \<open>b\<close> are
  accepted exactly when \<open>1 \<le> a \<le> b \<le> 65535\<close>; the ports field is then \<^verbatim>\<open>-p a-b\<close>
  with both numbers in decimal. Otherwise (\<open>a > b\<close>, or a bound outside 1..65535) the
  dialogue asks again, that is, it goes on with the following lines. In particular the
  decimal numerals of any such \<open>a\<close> and \<open>b\<close> are accepted, and key \<^verbatim>\<open>11\<close> of the Ports step
  opens this dialogue.
\<close>

theorem custom_range_valid_iff:
  assumes "py_int (py_strip sa) = Some a" and "py_int (py_strip sb) = Some b"
  shows "custom_range cp (sa # sb # rest) =
           (if 1 \<le> a \<and> a \<le> b \<and> b \<le> 65535
            then Inr (cp\<lparr>ports := ''-p '' @ py_str a @ ''-'' @ py_str b\<rparr>, rest)
            else custom_range cp rest)
    \<and> (1 \<le> a \<and> a \<le> b \<and> b \<le> 65535 \<longrightarrow>
         custom_range cp (py_str a # py_str b # rest)
           = Inr (cp\<lparr>ports := ''-p '' @ py_str a @ ''-'' @ py_str b\<rparr>, rest))
    \<and> get_port_specification cp (''11'' # sa # sb # rest) = custom_range cp (sa # sb # rest)"
proof -
  have first: "custom_range cp (sa # sb # rest) =
           (if 1 \<le> a \<and> a \<le> b \<and> b \<le> 65535
            then Inr (cp\<lparr>ports := ''-p '' @ py_str a @ ''-'' @ py_str b\<rparr>, rest)
            else custom_range cp rest)"
    using assms by auto
  have second: "custom_range cp (py_str a # py_str b # rest)
           = Inr (cp\<lparr>ports := ''-p '' @ py_str a @ ''-'' @ py_str b\<rparr>, rest)"
    if "1 \<le> a \<and> a \<le> b \<and> b \<le> 65535"
  proof -
    from that have "py_int (py_strip (py_str a)) = Some a" "py_int (py_strip (py_str b)) = Some b"
      by (simp_all add: py_int_py_str_port)
    with that show ?thesis by simp
  qed
  have key: "py_strip ''11'' = ''11''" by (simp add: py_defs)
  have third: "get_port_specification cp (''11'' # sa # sb # rest) = custom_range cp (sa # sb # rest)"
    by (simp add: key port_options_def)
  from first second third show ?thesis by blast
qed

theorem custom_range_valid_iff_witness:
  "py_int (py_strip '' 20'') = Some 20 \<and> py_int (py_strip ''1_024 '') = Some 1024
   \<and> custom_range init_parts ['' 20'', ''1_024 ''] = Inr (init_parts\<lparr>ports := ''-p 20-1024''\<rparr>, [])
   \<and> custom_range init_parts [''20'', ''1024''] = Inr (init_parts\<lparr>ports := ''-p 20-1024''\<rparr>, [])
   \<and> py_int (py_strip ''443'') = Some 443 \<and> py_int (py_strip ''80'') = Some 80
   \<and> custom_range init_parts [''443'', ''80'', '' 20'', ''1_024 '']
       = Inr (init_parts\<lparr>ports := ''-p 20-1024''\<rparr>, [])
   \<and> py_int (py_strip ''0'') = Some 0 \<and> py_int (py_strip ''65536'') = Some 65536
   \<and> custom_range init_parts [''0'', ''65536''] = Inl EOFError"
proof -
  have p: "py_int (py_strip '' 20'') = Some 20" "py_int (py_strip ''1_024 '') = Some 1024"
    "py_int (py_strip ''443'') = Some 443" "py_int (py_strip ''80'') = Some 80"
    "py_int (py_strip ''0'') = Some 0" "py_int (py_strip ''65536'') = Some 65536"
    by (simp_all add: py_defs)
  have s: "py_str 20 = ''20''" "py_str 1024 = ''1024''"
    by (simp_all add: py_defs)
  have a: "custom_range init_parts ['' 20'', ''1_024 '']
             = Inr (init_parts\<lparr>ports := ''-p 20-1024''\<rparr>, [])"
    "custom_range init_parts [''20'', ''1024'']
             = Inr (init_parts\<lparr>ports := ''-p 20-1024''\<rparr>, [])"
    using custom_range_valid_iff [OF p(1) p(2), of init_parts "[]"] s by simp_all
  have b: "custom_range init_parts [''443'', ''80'', '' 20'', ''1_024 '']
             = custom_range init_parts ['' 20'', ''1_024 '']"
    using custom_range_valid_iff [OF p(3) p(4), of init_parts "['' 20'', ''1_024 '']"] by simp
  have c: "custom_range init_parts [''0'', ''65536''] = custom_range init_parts []"
    using custom_range_valid_iff [OF p(5) p(6), of init_parts "[]"] by simp
  from p a b c show ?thesis by simp
qed

section \<open>Detection selection\<close>

lemma detection_loop_no_custom:
  assumes "''9'' \<notin> set (map py_strip cs)"
  shows "detection_loop cs inp fl =
           Inr (fl @ map (\<lambda>k. opt_flag (the (detection_options k)))
                         (filter (\<lambda>k. detection_options k \<noteq> None) (map py_strip cs)), inp)"
  using assms by (induction cs arbitrary: fl) (auto simp: Let_def split: option.splits)

lemma detection_loop_returns:
  assumes "length (filter (\<lambda>c. py_strip c = ''9'') cs) \<le> length inp"
  shows "\<exists>fl' rest. detection_loop cs inp fl = Inr (fl', rest)"
  using assms
proof (induction cs arbitrary: inp fl)
  case Nil
  then show ?case by simp
next
  case (Cons c cs)
  show ?case
  proof (cases "py_strip c = ''9''")
    case True
    with Cons.prems obtain n rest where inp: "inp = n # rest"
      and len: "length (filter (\<lambda>c. py_strip c = ''9'') cs) \<le> length rest"
      by (cases inp) auto
    have "detection_options ''9'' \<noteq> None" by (simp add: detection_options_def)
    with True inp Cons.IH [OF len] show ?thesis by (auto simp: Let_def)
  next
    case False
    with Cons.prems have "length (filter (\<lambda>c. py_strip c = ''9'') cs) \<le> length inp" by simp
    from Cons.IH [OF this] False show ?thesis
      by (auto simp: Let_def split: option.splits)
  qed
qed

lemma detection_loop_flags:
  assumes "detection_loop cs inp fl = Inr (fl', rest)"
  shows "\<exists>new. fl' = fl @ new \<and>
           list_all2 (\<lambda>k f. if k = ''9'' then \<exists>name\<in>set inp. f = ''--script='' @ py_strip name
                            else map_option opt_flag (detection_options k) = Some f)
             (filter (\<lambda>k. detection_options k \<noteq> None) (map py_strip cs)) new"
  using assms
proof (induction cs arbitrary: inp fl)
  case Nil
  then show ?case by simp
next
  case (Cons c cs)
  let ?R = "\<lambda>inp k f. if k = ''9'' then \<exists>name\<in>set inp. f = ''--script='' @ py_strip name
                         else map_option opt_flag (detection_options k) = Some f"
  show ?case
  proof (cases "detection_options (py_strip c)")
    case None
    with Cons show ?thesis by (simp add: Let_def)
  next
    case (Some d)
    show ?thesis
    proof (cases "py_strip c = ''9''")
      case True
      with Some Cons.prems obtain n r where inp: "inp = n # r"
        and run: "detection_loop cs r (fl @ [''--script='' @ py_strip n]) = Inr (fl', rest)"
        by (cases inp) (auto simp: Let_def)
      from Cons.IH [OF run] obtain new where new: "fl' = (fl @ [''--script='' @ py_strip n]) @ new"
        and rel: "list_all2 (?R r) (filter (\<lambda>k. detection_options k \<noteq> None) (map py_strip cs)) new"
        by blast
      have "list_all2 (?R inp) (filter (\<lambda>k. detection_options k \<noteq> None) (map py_strip cs)) new"
        using rel by (rule list_all2_mono) (auto simp: inp split: if_splits)
      with True Some new inp show ?thesis by auto
    next
      case False
      with Some Cons.prems have run: "detection_loop cs inp (fl @ [opt_flag d]) = Inr (fl', rest)"
        by (simp add: Let_def)
      from Cons.IH [OF run] obtain new where new: "fl' = (fl @ [opt_flag d]) @ new"
        and rel: "list_all2 (?R inp) (filter (\<lambda>k. detection_options k \<noteq> None) (map py_strip cs)) new"
        by blast
      with False Some show ?thesis by auto
    qed
  qed
qed

text \<open>
  C7. The detection loop walks the comma-separated keys in order. A key outside the catalog
  adds nothing and raises nothing; every occurrence of a catalog key adds one flag, a
  repeated key adds its flag again, and the flags stand in the order of their keys: the
  flags added match, position by position, the stripped keys that are in the catalog
  (for the custom-script key \<^verbatim>\<open>9\<close> the flag is \<^verbatim>\<open>--script=\<close> followed by a line read
  from the operator). The loop returns whenever the input holds a line for every
  occurrence of key \<^verbatim>\<open>9\<close>, and without that key it reads no input at all. The Detection
  step runs this loop on the pieces of a non-empty selection line and stores the flags
  joined by spaces.
\<close>

theorem detection_selection_lenient:
  "(detection_loop cs inp fl = Inr (fl', rest) \<longrightarrow>
      (\<exists>new. fl' = fl @ new \<and>
         list_all2 (\<lambda>k f. if k = ''9'' then \<exists>name\<in>set inp. f = ''--script='' @ py_strip name
                          else map_option opt_flag (detection_options k) = Some f)
           (filter (\<lambda>k. detection_options k \<noteq> None) (map py_strip cs)) new))
   \<and> (length (filter (\<lambda>c. py_strip c = ''9'') cs) \<le> length inp \<longrightarrow>
        (\<exists>fl'' rest'. detection_loop cs inp fl = Inr (fl'', rest')))
   \<and> (''9'' \<notin> set (map py_strip cs) \<longrightarrow>
        detection_loop cs inp fl =
          Inr (fl @ map (\<lambda>k. opt_flag (the (detection_options k)))
                        (filter (\<lambda>k. detection_options k \<noteq> None) (map py_strip cs)), inp))
   \<and> (detection_options (py_strip c) = None \<longrightarrow>
        detection_loop (c # cs) inp fl = detection_loop cs inp fl)
   \<and> (py_strip l \<noteq> [] \<longrightarrow>
        get_detection_options cp (l # inp) =
          (case detection_loop (py_split_on (CHR '','') (py_strip l)) inp [] of
             Inl e \<Rightarrow> Inl e
           | Inr (flags, rest') \<Rightarrow> Inr (cp\<lparr>detection := py_join '' '' flags\<rparr>, rest')))"
  using detection_loop_flags [of cs inp fl fl' rest] detection_loop_returns [of cs inp fl]
    detection_loop_no_custom [of cs inp fl]
  by (auto simp: Let_def)

theorem detection_selection_lenient_witness:
  "''9'' \<notin> set (map py_strip [''2'', '' x'', ''1'', [], ''2'', ''10 '', ''5''])
   \<and> length (filter (\<lambda>c. py_strip c = ''9'') [''2'', '' x'', ''1'', [], ''2'', ''10 '', ''5''])
       \<le> length [''next'']
   \<and> detection_options (py_strip '' x'') = None
   \<and> get_detection_options init_parts [''2, x,1,,2,10 ,5'', ''next'']
     = Inr (init_parts\<lparr>detection := ''-O -sV -O --script=vuln''\<rparr>, [''next''])
   \<and> detection_loop [''2'', '' x'', ''1'', [], ''2'', ''10 '', ''5''] [''next''] []
     = Inr ([''-O'', ''-sV'', ''-O'', ''--script=vuln''], [''next''])
   \<and> detection_loop ['' x'', ''1''] [''next''] [] = detection_loop [''1''] [''next''] []"
proof -
  have keys: "''9'' \<notin> set (map py_strip [''2'', '' x'', ''1'', [], ''2'', ''10 '', ''5''])"
    "length (filter (\<lambda>c. py_strip c = ''9'') [''2'', '' x'', ''1'', [], ''2'', ''10 '', ''5''])
       \<le> length [''next'']"
    "detection_options (py_strip '' x'') = None"
    by (simp_all add: py_defs catalog_defs)
  have loop: "detection_loop [''2'', '' x'', ''1'', [], ''2'', ''10 '', ''5''] [''next''] []
     = Inr ([''-O'', ''-sV'', ''-O'', ''--script=vuln''], [''next''])"
    using detection_selection_lenient
      [where cs = "[''2'', '' x'', ''1'', [], ''2'', ''10 '', ''5'']" and inp = "[''next'']"
         and fl = "[]"] keys(1)
    by (simp add: py_defs catalog_defs)
  have skip: "detection_loop ['' x'', ''1''] [''next''] [] = detection_loop [''1''] [''next''] []"
    using detection_selection_lenient [where c = "'' x''" and cs = "[''1'']"
        and inp = "[''next'']" and fl = "[]"] keys(3)
    by blast
  have split: "py_split_on (CHR '','') (py_strip ''2, x,1,,2,10 ,5'')
                 = [''2'', '' x'', ''1'', [], ''2'', ''10 '', ''5'']"
    by (simp add: py_defs)
  have "get_detection_options init_parts [''2, x,1,,2,10 ,5'', ''next'']
     = Inr (init_parts\<lparr>detection := ''-O -sV -O --script=vuln''\<rparr>, [''next''])"
    using split loop by (simp add: Let_def) (simp add: py_defs)
  with loop skip keys show ?thesis by blast
qed

text \<open>
  C8 (as stated, refuted). The claim has an empty script name rejected. The code does not
  look at the name: with key \<^verbatim>\<open>9\<close> and an empty name the step stores the flag
  \<^verbatim>\<open>--script=\<close>.
\<close>

theorem custom_script_empty_name_counterexample:
  "get_detection_options init_parts [''9'', []]
     = Inr (init_parts\<lparr>detection := ''--script=''\<rparr>, [])"
  by (simp add: py_defs catalog_defs)

text \<open>
  C8 (amended). The custom-script key \<^verbatim>\<open>9\<close> reads one line and adds the flag
  \<^verbatim>\<open>--script=\<close> followed by the stripped line, whatever the line is: a non-empty name
  gives \<^verbatim>\<open>--script=<name>\<close>, and an empty name is accepted too and gives \<^verbatim>\<open>--script=\<close>.
\<close>

theorem custom_script_any_name:
  assumes "py_strip c = ''9''"
  shows "detection_loop (c # cs) (n # rest) fl
           = detection_loop cs rest (fl @ [''--script='' @ py_strip n])
    \<and> get_detection_options cp (c # n # rest)
           = Inr (cp\<lparr>detection := ''--script='' @ py_strip n\<rparr>, rest)"
proof -
  have in_catalog: "detection_options ''9'' \<noteq> None" by (simp add: detection_options_def)
  have one: "py_split_on (CHR '','') ''9'' = [''9'']" "py_strip ''9'' = ''9''"
    by (simp_all add: py_defs)
  from assms in_catalog have "detection_loop (c # cs) (n # rest) fl
           = detection_loop cs rest (fl @ [''--script='' @ py_strip n])"
    by (auto simp: Let_def)
  moreover from assms in_catalog one
  have "get_detection_options cp (c # n # rest)
           = Inr (cp\<lparr>detection := ''--script='' @ py_strip n\<rparr>, rest)"
    by (auto simp: Let_def)
  ultimately show ?thesis by blast
qed

theorem custom_script_any_name_witness:
  "py_strip '' 9'' = ''9''
   \<and> get_detection_options init_parts ['' 9'', ''http-title '', ''-v'']
       = Inr (init_parts\<lparr>detection := ''--script=http-title''\<rparr>, [''-v''])
   \<and> get_detection_options init_parts ['' 9'', ''  '', ''-v'']
       = Inr (init_parts\<lparr>detection := ''--script=''\<rparr>, [''-v''])"
proof -
  have k: "py_strip '' 9'' = ''9''" by (simp add: py_defs)
  have n: "py_strip ''http-title '' = ''http-title''" "py_strip ''  '' = []"
    by (simp_all add: py_defs)
  show ?thesis
    using custom_script_any_name [OF k, of "[]" "''http-title ''" "[''-v'']" "[]" init_parts]
      custom_script_any_name [OF k, of "[]" "''  ''" "[''-v'']" "[]" init_parts] k n
    by simp
qed

section \<open>Selecting from the history view\<close>

text \<open>
  C1 (as stated, refuted). The claim resolves display index \<open>i\<close> to \<open>history[L - i]\<close>, with
  1 the most recent entry. In a history of 12 entries the view lists positions 2 to 11 in
  stored order, number 1 being position 2, and selecting 1 returns the command at
  position 2, not the one at position 11. For the 5-entry history of the claim, selecting
  1 does not return position 4: the lookup \<^verbatim>\<open>history[-10]\<close> raises \<open>IndexError\<close>.
  (All timestamps of the two histories are of the form \<^verbatim>\<open>isoformat()\<close> writes, so the
  listing itself goes through.)
\<close>

theorem history_selection_counterexample:
  "show_command_history example_clock (example_env (example_history 12)) [''1'']
     = Return (Some (command (example_history 12 ! 2))) (example_env (example_history 12)) []
   \<and> command (example_history 12 ! 2) \<noteq> command (example_history 12 ! (12 - 1))
   \<and> hd (history_listing (example_history 12)) = (1, example_history 12 ! 2)
   \<and> show_command_history example_clock (example_env (example_history 5)) [''1'']
     = Raise IndexError (example_env (example_history 5))"
proof -
  have "show_command_history example_clock (example_env (example_history 12)) [''1'']
     = Return (Some (command (example_history 12 ! 2))) (example_env (example_history 12)) []"
    by (simp add: show_command_history_def example_env_def example_history_def py_defs
        example_entry_def example_clock_def iso_shape_def upt_rec)
  moreover have "command (example_history 12 ! 2) \<noteq> command (example_history 12 ! (12 - 1))"
    by (simp add: example_history_def example_entry_def py_defs)
  moreover have "hd (history_listing (example_history 12)) = (1, example_history 12 ! 2)"
    by (simp add: history_listing_def example_history_def py_defs upt_rec enumerate_eq_zip hd_zip)
  moreover have "show_command_history example_clock (example_env (example_history 5)) [''1'']
     = Raise IndexError (example_env (example_history 5))"
    by (simp add: show_command_history_def example_env_def example_history_def py_defs
        example_entry_def example_clock_def iso_shape_def upt_rec)
  ultimately show ?thesis by blast
qed

lemma show_command_history_bad_timestamp:
  assumes "history w = Stored h" and "h \<noteq> []"
    and "\<not> list_all (\<lambda>entry. fromisoformat_ok now (timestamp entry)) (py_last_n 10 h)"
  shows "show_command_history now w inp = Raise ValueError w"
  using assms by (simp add: show_command_history_def)

text \<open>
  C1 (amended). For a stored history of length \<open>L \<ge> 10\<close> whose last 10 entries carry
  timestamps that \<^verbatim>\<open>datetime.fromisoformat\<close> accepts, the view lists the last 10
  entries in stored order, numbered 1 to 10, so that 1 is the oldest of the ten and 10 the
  most recent. A choice of digits that \<^verbatim>\<open>int\<close> reads as \<open>i\<close>, \<open>1 \<le> i \<le> 10\<close>, returns the
  command of the entry at position \<open>L + i - 11\<close>, which is the entry listed under number \<open>i\<close>.
\<close>

theorem history_selection_full_view:
  assumes "history w = Stored h" and "10 \<le> length h"
    and "py_isdigit (py_strip l)" and "py_int (py_strip l) = Some i"
    and "1 \<le> i" and "i \<le> 10"
    and "list_all (\<lambda>entry. fromisoformat_ok now (timestamp entry)) (py_last_n 10 h)"
  shows "show_command_history now w (l # ls)
           = Return (Some (command (h ! (length h + nat i - 11)))) w ls
    \<and> history_listing h ! (nat i - 1) = (nat i, h ! (length h + nat i - 11))
    \<and> length (history_listing h) = 10"
proof -
  from assms(2) have ne: "h \<noteq> []" by auto
  have idx: "py_index h (- (11 - i)) = Inr (h ! (length h + nat i - 11))"
  proof -
    have "nat (int (length h) + (- (11 - i))) = length h + nat i - 11"
      using assms(2,5,6) by linarith
    then show ?thesis using assms(2,5,6) by (simp add: py_index_def)
  qed
  have sel: "show_command_history now w (l # ls)
           = Return (Some (command (h ! (length h + nat i - 11)))) w ls"
    using assms ne idx by (simp add: show_command_history_def Let_def)
  have len: "length (history_listing h) = 10"
    using assms(2) by (simp add: history_listing_def py_last_n_def)
  have "nat i - 1 < length (py_last_n 10 h)"
    using assms(2,5,6) by (simp add: py_last_n_def)
  then have "history_listing h ! (nat i - 1) = (1 + (nat i - 1), py_last_n 10 h ! (nat i - 1))"
    unfolding history_listing_def by (rule nth_enumerate_eq)
  moreover have "py_last_n 10 h ! (nat i - 1) = h ! (length h + nat i - 11)"
  proof -
    have "length h - 10 + (nat i - 1) = length h + nat i - 11"
      using assms(2,5,6) by linarith
    then show ?thesis using assms(2,5,6) by (simp add: py_last_n_def)
  qed
  moreover have "1 + (nat i - 1) = nat i" using assms(5) by linarith
  ultimately have "history_listing h ! (nat i - 1) = (nat i, h ! (length h + nat i - 11))"
    by simp
  with sel len show ?thesis by blast
qed

theorem history_selection_full_view_witness:
  "history (example_env (example_history 12)) = Stored (example_history 12)
   \<and> 10 \<le> length (example_history 12)
   \<and> py_isdigit (py_strip '' 10 '') \<and> py_int (py_strip '' 10 '') = Some 10
   \<and> list_all (\<lambda>entry. fromisoformat_ok example_clock (timestamp entry))
         (py_last_n 10 (example_history 12))
   \<and> show_command_history example_clock (example_env (example_history 12)) ['' 10 '', ''5'']
       = Return (Some ''nmap -p 11 scanme'') (example_env (example_history 12)) [''5'']
   \<and> history_listing (example_history 12) ! 9 = (10, example_entry 11)"
proof -
  have ts: "list_all (\<lambda>entry. fromisoformat_ok example_clock (timestamp entry))
         (py_last_n 10 (example_history 12))"
    by (simp add: py_last_n_def example_history_def example_entry_def example_clock_def
        iso_shape_def is_ascii_digit_def upt_rec)
  have h: "history (example_env (example_history 12)) = Stored (example_history 12)"
    by (simp add: example_env_def)
  have l: "10 \<le> length (example_history 12)" by (simp add: example_history_def)
  have d: "py_isdigit (py_strip '' 10 '')" "py_int (py_strip '' 10 '') = Some 10"
    by (simp_all add: py_defs)
  have e: "example_history 12 ! (length (example_history 12) + nat 10 - 11) = example_entry 11"
    by (simp add: example_history_def)
  have c: "command (example_entry 11) = ''nmap -p 11 scanme''"
    by (simp add: example_entry_def py_defs)
  have one: "(1::int) \<le> 10" "(10::int) \<le> 10" by simp_all
  show ?thesis
    using history_selection_full_view [OF h l d one ts, of "[''5'']"] h l d e c ts by simp
qed

section \<open>The post-build menu and the history\<close>

lemma env_of_press_enter: "env_of (press_enter r) = env_of r"
  by (auto simp: press_enter_def split: outcome.splits list.splits)

lemma execute_command_history: "history (env_of (execute_command cmd w inp)) = history w"
  by (auto simp: execute_command_def split: list.splits)

lemma save_as_script_history: "history (env_of (save_as_script now cmd w inp)) = history w"
  by (auto simp: save_as_script_def Let_def split: list.splits)

lemma copy_to_clipboard_history: "history (copy_to_clipboard cmd w) = history w"
  by (simp add: copy_to_clipboard_def)

lemma options_menu_history: "history (env_of (options_menu now cmd w inp)) = history w"
proof (induction now cmd w inp rule: options_menu.induct)
  case (1 now cmd w)
  then show ?case by simp
next
  case (2 now cmd w l ls)
  let ?c = "py_strip l"
  consider (run_it) "?c = ''1''" | (save_it) "?c \<noteq> ''1''" "?c = ''2''"
    | (copy_it) "?c \<noteq> ''1''" "?c \<noteq> ''2''" "?c = ''3''"
    | (edit_it) "?c \<noteq> ''1''" "?c \<noteq> ''2''" "?c \<noteq> ''3''" "?c = ''4''"
    | (leave) "?c \<noteq> ''1''" "?c \<noteq> ''2''" "?c \<noteq> ''3''" "?c \<noteq> ''4''" "?c = ''5''"
    | (invalid) "?c \<noteq> ''1''" "?c \<noteq> ''2''" "?c \<noteq> ''3''" "?c \<noteq> ''4''" "?c \<noteq> ''5''"
    by blast
  then show ?case
  proof cases
    case run_it
    show ?thesis
    proof (cases "press_enter (execute_command cmd w ls)")
      case (Return u w' rest)
      with run_it "2.IH"(1) [OF refl run_it Return]
      have "history (env_of (options_menu now cmd w (l # ls))) = history w'" by simp
      also have "w' = env_of (press_enter (execute_command cmd w ls))" using Return by simp
      finally show ?thesis by (simp add: env_of_press_enter execute_command_history)
    next
      case (Raise e w')
      then have "w' = env_of (press_enter (execute_command cmd w ls))" by simp
      with run_it Raise show ?thesis by (simp add: env_of_press_enter execute_command_history)
    qed
  next
    case save_it
    show ?thesis
    proof (cases "press_enter (save_as_script now cmd w ls)")
      case (Return u w' rest)
      with save_it "2.IH"(2) [OF refl save_it Return]
      have "history (env_of (options_menu now cmd w (l # ls))) = history w'" by simp
      also have "w' = env_of (press_enter (save_as_script now cmd w ls))" using Return by simp
      finally show ?thesis by (simp add: env_of_press_enter save_as_script_history)
    next
      case (Raise e w')
      then have "w' = env_of (press_enter (save_as_script now cmd w ls))" by simp
      with save_it Raise show ?thesis by (simp add: env_of_press_enter save_as_script_history)
    qed
  next
    case copy_it
    show ?thesis
    proof (cases "press_enter (Return () (copy_to_clipboard cmd w) ls)")
      case (Return u w' rest)
      with copy_it "2.IH"(3) [OF refl copy_it Return]
      have "history (env_of (options_menu now cmd w (l # ls))) = history w'" by simp
      also have "w' = env_of (press_enter (Return () (copy_to_clipboard cmd w) ls))"
        using Return by simp
      finally show ?thesis by (simp add: env_of_press_enter copy_to_clipboard_history)
    next
      case (Raise e w')
      then have "w' = env_of (press_enter (Return () (copy_to_clipboard cmd w) ls))" by simp
      with copy_it Raise show ?thesis by (simp add: env_of_press_enter copy_to_clipboard_history)
    qed
  next
    case edit_it
    show ?thesis
    proof (cases ls)
      case Nil
      with edit_it show ?thesis by simp
    next
      case (Cons m rest)
      with edit_it "2.IH"(4,5) [OF refl edit_it Cons refl] show ?thesis
        by (simp add: Let_def)
    qed
  next
    case leave
    then show ?thesis by simp
  next
    case invalid
    show ?thesis
    proof (cases ls)
      case Nil
      with invalid show ?thesis by simp
    next
      case (Cons x rest)
      with invalid "2.IH"(6) [OF refl invalid Cons] show ?thesis by simp
    qed
  qed
qed

lemma save_command_history_stored:
  assumes "writable w"
  shows "history (save_command_history now cmd cp w)
           = Stored (py_last_n 50 ((case history w of Stored h \<Rightarrow> h | _ \<Rightarrow> [])
                       @ [\<lparr>timestamp = iso now, command = cmd, entry_target = target cp\<rparr>]))"
  using assms by (simp add: save_command_history_def)

lemma process_built_command_history:
  "history (env_of (process_built_command now cmd cp w inp))
     = history (save_command_history now cmd cp w)"
  by (simp add: process_built_command_def options_menu_history)

text \<open>
  C10. \<^verbatim>\<open>process_built_command\<close> saves the command to the history and then runs the
  options menu; the menu itself never touches the history, however it ends, so the
  history after the whole procedure is the one written by that single save, whose new
  entry holds the command passed in. Option 4 with a non-empty line replaces the command
  the menu goes on with, and the execute, save-script and copy actions of the menu work
  on the command the menu currently holds.
\<close>

theorem history_written_once_before_menu:
  "process_built_command now cmd cp w inp
     = options_menu now cmd (save_command_history now cmd cp w) inp
   \<and> history (env_of (options_menu now cmd w inp)) = history w
   \<and> history (env_of (process_built_command now cmd cp w inp))
       = history (save_command_history now cmd cp w)
   \<and> (writable w \<longrightarrow>
        history (env_of (process_built_command now cmd cp w inp))
          = Stored (py_last_n 50 ((case history w of Stored h \<Rightarrow> h | _ \<Rightarrow> [])
                      @ [\<lparr>timestamp = iso now, command = cmd, entry_target = target cp\<rparr>])))
   \<and> (py_strip l = ''4'' \<and> py_strip m \<noteq> [] \<longrightarrow>
        options_menu now cmd w (l # m # rest) = options_menu now (py_strip m) w rest)
   \<and> (py_strip l = ''1'' \<and> says_yes y \<longrightarrow>
        options_menu now cmd w (l # y # x # rest)
          = options_menu now cmd (w\<lparr>events := events w @ [Run (py_split cmd)]\<rparr>) rest)
   \<and> (py_strip l = ''2'' \<and> says_yes y \<and> py_strip f \<noteq> [] \<and> suffix ''.sh'' (py_strip f) \<longrightarrow>
        options_menu now cmd w (l # y # f # x # rest)
          = options_menu now cmd
              (w\<lparr>events := events w @ [WriteScript (py_strip f) (script_content now cmd)]\<rparr>) rest)
   \<and> (py_strip l = ''3'' \<and> pyperclip_installed w \<longrightarrow>
        options_menu now cmd w (l # x # rest)
          = options_menu now cmd (w\<lparr>events := events w @ [Copy cmd]\<rparr>) rest)"
proof -
  have "writable w \<longrightarrow>
        history (env_of (process_built_command now cmd cp w inp))
          = Stored (py_last_n 50 ((case history w of Stored h \<Rightarrow> h | _ \<Rightarrow> [])
                      @ [\<lparr>timestamp = iso now, command = cmd, entry_target = target cp\<rparr>]))"
    by (simp add: process_built_command_history save_command_history_stored)
  moreover have "py_strip l = ''4'' \<and> py_strip m \<noteq> [] \<longrightarrow>
        options_menu now cmd w (l # m # rest) = options_menu now (py_strip m) w rest"
    by (simp add: Let_def)
  moreover have "py_strip l = ''1'' \<and> says_yes y \<longrightarrow>
        options_menu now cmd w (l # y # x # rest)
          = options_menu now cmd (w\<lparr>events := events w @ [Run (py_split cmd)]\<rparr>) rest"
    by (simp add: Let_def execute_command_def press_enter_def)
  moreover have "py_strip l = ''2'' \<and> says_yes y \<and> py_strip f \<noteq> [] \<and> suffix ''.sh'' (py_strip f) \<longrightarrow>
        options_menu now cmd w (l # y # f # x # rest)
          = options_menu now cmd
              (w\<lparr>events := events w @ [WriteScript (py_strip f) (script_content now cmd)]\<rparr>) rest"
    by (simp add: Let_def save_as_script_def press_enter_def)
  moreover have "py_strip l = ''3'' \<and> pyperclip_installed w \<longrightarrow>
        options_menu now cmd w (l # x # rest)
          = options_menu now cmd (w\<lparr>events := events w @ [Copy cmd]\<rparr>) rest"
    by (simp add: Let_def copy_to_clipboard_def press_enter_def)
  ultimately show ?thesis
    using options_menu_history [of now cmd w inp]
      process_built_command_history [of now cmd cp w inp]
    by (simp add: process_built_command_def)
qed

theorem history_written_once_before_menu_witness:
  "writable fresh_env
   \<and> process_built_command example_clock ''nmap -sn 10.0.0.1'' (init_parts\<lparr>target := ''10.0.0.1''\<rparr>)
      fresh_env
      [''4'', ''nmap -F 10.0.0.2'', ''1'', ''y'', [], ''2'', ''Yes'', ''scan.sh'', [], ''3'', [], ''5'']
     = Return ()
        (fresh_env\<lparr>history := Stored [\<lparr>timestamp = ''2025-01-01T12:00:00'',
                                         command = ''nmap -sn 10.0.0.1'',
                                         entry_target = ''10.0.0.1''\<rparr>],
                    events := [Run [''nmap'', ''-F'', ''10.0.0.2''],
                               WriteScript ''scan.sh'' (script_content example_clock ''nmap -F 10.0.0.2''),
                               Copy ''nmap -F 10.0.0.2'']\<rparr>)
        []"
proof -
  let ?w = "fresh_env\<lparr>history := Stored [\<lparr>timestamp = ''2025-01-01T12:00:00'',
                                         command = ''nmap -sn 10.0.0.1'',
                                         entry_target = ''10.0.0.1''\<rparr>]\<rparr>"
  let ?new = "''nmap -F 10.0.0.2''"
  let ?w1 = "?w\<lparr>events := events ?w @ [Run (py_split ?new)]\<rparr>"
  let ?w2 = "?w1\<lparr>events := events ?w1 @ [WriteScript (py_strip ''scan.sh'') (script_content example_clock ?new)]\<rparr>"
  let ?w3 = "?w2\<lparr>events := events ?w2 @ [Copy ?new]\<rparr>"
  have wr: "writable fresh_env" by (simp add: fresh_env_def)
  have sv: "save_command_history example_clock ''nmap -sn 10.0.0.1''
              (init_parts\<lparr>target := ''10.0.0.1''\<rparr>) fresh_env = ?w"
    by (simp add: save_command_history_def fresh_env_def example_clock_def py_defs)
  have k: "py_strip ''4'' = ''4''" "py_strip ?new \<noteq> []" "py_strip ?new = ?new"
    "py_strip ''1'' = ''1''" "says_yes ''y''" "py_strip ''3'' = ''3''" "py_strip ''5'' = ''5''"
    "py_strip ''2'' = ''2''" "says_yes ''Yes''" "py_strip ''scan.sh'' = ''scan.sh''"
    "suffix ''.sh'' (py_strip ''scan.sh'')"
    by (simp_all add: py_defs suffix_def)
  have p: "pyperclip_installed ?w2" by (simp add: fresh_env_def)
  have s: "py_split ?new = [''nmap'', ''-F'', ''10.0.0.2'']" by (simp add: py_defs)
  note t = history_written_once_before_menu
  have "process_built_command example_clock ''nmap -sn 10.0.0.1'' (init_parts\<lparr>target := ''10.0.0.1''\<rparr>)
      fresh_env
      [''4'', ?new, ''1'', ''y'', [], ''2'', ''Yes'', ''scan.sh'', [], ''3'', [], ''5'']
    = options_menu example_clock ''nmap -sn 10.0.0.1'' ?w
        [''4'', ?new, ''1'', ''y'', [], ''2'', ''Yes'', ''scan.sh'', [], ''3'', [], ''5'']"
    using t [where now = example_clock and cmd = "''nmap -sn 10.0.0.1''"
               and cp = "init_parts\<lparr>target := ''10.0.0.1''\<rparr>" and w = fresh_env]
    by (simp only: sv)
  also have "\<dots> = options_menu example_clock ?new ?w
                     [''1'', ''y'', [], ''2'', ''Yes'', ''scan.sh'', [], ''3'', [], ''5'']"
    using t [where now = example_clock and w = ?w and l = "''4''" and m = ?new] k by simp
  also have "\<dots> = options_menu example_clock ?new ?w1
                     [''2'', ''Yes'', ''scan.sh'', [], ''3'', [], ''5'']"
    using t [where now = example_clock and cmd = ?new and w = ?w
               and l = "''1''" and y = "''y''" and x = "[]"
               and rest = "[''2'', ''Yes'', ''scan.sh'', [], ''3'', [], ''5'']"] k
    by simp
  also have "\<dots> = options_menu example_clock ?new ?w2 [''3'', [], ''5'']"
    using t [where now = example_clock and cmd = ?new and w = ?w1
               and l = "''2''" and y = "''Yes''" and f = "''scan.sh''" and x = "[]"
               and rest = "[''3'', [], ''5'']"] k
    by simp
  also have "\<dots> = options_menu example_clock ?new ?w3 [''5'']"
    using t [where now = example_clock and cmd = ?new and w = ?w2
               and l = "''3''" and x = "[]" and rest = "[''5'']"] k p
    by simp
  also have "\<dots> = Return ()
        (fresh_env\<lparr>history := Stored [\<lparr>timestamp = ''2025-01-01T12:00:00'',
                                         command = ''nmap -sn 10.0.0.1'',
                                         entry_target = ''10.0.0.1''\<rparr>],
                    events := [Run [''nmap'', ''-F'', ''10.0.0.2''],
                               WriteScript ''scan.sh'' (script_content example_clock ''nmap -F 10.0.0.2''),
                               Copy ''nmap -F 10.0.0.2'']\<rparr>)
        []"
    using k s by (simp add: fresh_env_def)
  finally show ?thesis using wr by simp
qed

section \<open>The target recorded in the history\<close>






end
